theory Spec2Isabelle
  imports Complex_Main
begin

section \<open>JavaScript values as the gateway sees them\<close>

text \<open>
  The gateway (\<^verbatim>\<open>server.js\<close>) reads its inputs from a JSON request body and from the
  objects the MetaApi SDK hands back. Both are dynamically typed, so one datatype of
  values covers them. \<open>JUndefined\<close> is what reading an absent property gives.

  Numbers are kept as exact rationals, plus \<open>NaN\<close> and the two infinities. A number
  of the body is the double that \<^verbatim>\<open>JSON.parse\<close> made of it. Of the rounding to binary64
  only what decides a test is modelled (a literal too small reads as zero, one too large
  as an infinity); the only arithmetic of the gateway is a subtraction of integers, on
  the clock. Strings are ASCII: a character above 127 stands for nothing
  here, and the functions on strings below are those of ECMAScript on ASCII text.
\<close>

datatype jsnum = NaN | Fin rat | PosInf | NegInf

datatype jsval =
    JUndefined
  | JNull
  | JBool bool
  | JNum jsnum
  | JStr string
  | JArr "jsval list"
  | JObj "(string \<times> jsval) list"

text \<open>An object received from the body or from the SDK: its properties by name.\<close>

type_synonym jsobj = "string \<rightharpoonup> jsval"

text \<open>Property access \<^verbatim>\<open>o.k\<close>: an absent property reads as \<^verbatim>\<open>undefined\<close>.\<close>

definition getp :: "jsobj \<Rightarrow> string \<Rightarrow> jsval" where
  "getp obj k = (case obj k of None \<Rightarrow> JUndefined | Some v \<Rightarrow> v)"

text \<open>Property access on a value that is an object literal of the gateway.\<close>

definition jsprop :: "jsval \<Rightarrow> string \<Rightarrow> jsval" where
  "jsprop v k = (case v of JObj kvs \<Rightarrow> getp (map_of kvs) k | _ \<Rightarrow> JUndefined)"

text \<open>ToBoolean, as used by \<^verbatim>\<open>!x\<close>, \<^verbatim>\<open>x || y\<close> and \<^verbatim>\<open>x ? a : b\<close>.\<close>

fun truthy :: "jsval \<Rightarrow> bool" where
  "truthy JUndefined = False"
| "truthy JNull = False"
| "truthy (JBool b) = b"
| "truthy (JNum NaN) = False"
| "truthy (JNum (Fin q)) = (q \<noteq> 0)"
| "truthy (JNum PosInf) = True"
| "truthy (JNum NegInf) = True"
| "truthy (JStr s) = (s \<noteq> [])"
| "truthy (JArr xs) = True"
| "truthy (JObj kvs) = True"

text \<open>The operator \<^verbatim>\<open>a || b\<close> on values.\<close>

definition js_or :: "jsval \<Rightarrow> jsval \<Rightarrow> jsval" where
  "js_or a b = (if truthy a then a else b)"

subsection \<open>Strings\<close>

definition toUpperChar :: "char \<Rightarrow> char" where
  "toUpperChar c =
     (case map_of (zip ''abcdefghijklmnopqrstuvwxyz'' ''ABCDEFGHIJKLMNOPQRSTUVWXYZ'') c of
        None \<Rightarrow> c
      | Some u \<Rightarrow> u)"

text \<open>\<^verbatim>\<open>String.prototype.toUpperCase\<close>, on ASCII strings.\<close>

definition toUpperCase :: "string \<Rightarrow> string" where
  "toUpperCase s = map toUpperChar s"

definition is_digit :: "char \<Rightarrow> bool" where
  "is_digit c = (c \<in> set ''0123456789'')"

text \<open>The white space and line terminators of ECMAScript that are ASCII.\<close>

definition is_ws :: "char \<Rightarrow> bool" where
  "is_ws c = (of_char c \<in> {9, 10, 11, 12, 13, 32 :: nat})"

definition digit_val :: "char \<Rightarrow> nat" where
  "digit_val c = of_char c - 48"

definition dec_val :: "string \<Rightarrow> nat" where
  "dec_val ds = foldl (\<lambda>a c. 10 * a + digit_val c) 0 ds"

text \<open>The decimal digits of a natural number, as a template literal prints a count.\<close>

fun show_nat :: "nat \<Rightarrow> string" where
  "show_nat n =
     (if n < 10 then [''0123456789'' ! n]
      else show_nat (n div 10) @ [''0123456789'' ! (n mod 10)])"

declare show_nat.simps [simp del]

subsection \<open>Numeric literals in strings\<close>

text \<open>
  \<open>exp_part r\<close> reads an ExponentPart at the front of \<open>r\<close>: \<open>e\<close> or \<open>E\<close>, an optional
  sign and at least one digit. It returns the exponent and the rest, or nothing to say
  that \<open>r\<close> does not start with an exponent.
\<close>

definition exp_part :: "string \<Rightarrow> (int \<times> string) option" where
  "exp_part r =
     (case r of
        [] \<Rightarrow> None
      | c # r1 \<Rightarrow>
          if c = CHR ''e'' \<or> c = CHR ''E'' then
            (let neg = (r1 \<noteq> [] \<and> hd r1 = CHR ''-'');
                 r2 = (if r1 \<noteq> [] \<and> (hd r1 = CHR ''-'' \<or> hd r1 = CHR ''+'') then tl r1 else r1);
                 ds = takeWhile is_digit r2
             in if ds = [] then None
                else Some ((if neg then - int (dec_val ds) else int (dec_val ds)),
                           dropWhile is_digit r2))
          else None)"

definition scale10 :: "rat \<Rightarrow> int \<Rightarrow> rat" where
  "scale10 m e = (if 0 \<le> e then m * 10 ^ nat e else m / 10 ^ nat (- e))"

text \<open>
  The longest prefix of \<open>s\<close> that is a StrUnsignedDecimalLiteral other than
  \<^verbatim>\<open>Infinity\<close>: digits, an optional fraction, an optional exponent; at least one digit
  before the exponent. The result is the value and the unread rest.
\<close>

definition unsigned_decimal :: "string \<Rightarrow> (rat \<times> string) option" where
  "unsigned_decimal s =
     (let ip = takeWhile is_digit s;
          r1 = dropWhile is_digit s;
          dot = (r1 \<noteq> [] \<and> hd r1 = CHR ''.'');
          fp = (if dot then takeWhile is_digit (tl r1) else []);
          r2 = (if dot then dropWhile is_digit (tl r1) else r1)
      in if ip = [] \<and> fp = [] then None
         else
           (let m = of_nat (dec_val ip) + of_nat (dec_val fp) / 10 ^ length fp
            in case exp_part r2 of
                 None \<Rightarrow> Some (m, r2)
               | Some (e, r3) \<Rightarrow> Some (scale10 m e, r3)))"

text \<open>
  What a decimal value reads as: a magnitude of at most \<open>1 / 2 ^ 1075\<close> rounds to zero (half
  the least double), one of at least \<open>2 ^ 1024 - 2 ^ 970\<close> to an infinity. In between the
  value is kept exact.
\<close>

definition read_double :: "rat \<Rightarrow> jsnum" where
  "read_double q =
     (if \<bar>q\<bar> \<le> 1 / 2 ^ 1075 then Fin 0
      else if 2 ^ 1024 - 2 ^ 970 \<le> \<bar>q\<bar> then (if 0 < q then PosInf else NegInf)
      else Fin q)"

definition negate :: "jsnum \<Rightarrow> jsnum" where
  "negate n = (case n of NaN \<Rightarrow> NaN | Fin q \<Rightarrow> Fin (- q) | PosInf \<Rightarrow> NegInf | NegInf \<Rightarrow> PosInf)"

definition strip_sign :: "string \<Rightarrow> bool \<times> string" where
  "strip_sign s =
     (if s \<noteq> [] \<and> hd s = CHR ''-'' then (True, tl s)
      else if s \<noteq> [] \<and> hd s = CHR ''+'' then (False, tl s)
      else (False, s))"

text \<open>
  \<^verbatim>\<open>parseFloat\<close> on a string: leading white space is skipped, then the longest prefix
  that is a decimal literal is read; anything after it is ignored; no such prefix gives
  \<open>NaN\<close>.
\<close>

definition parseFloat_str :: "string \<Rightarrow> jsnum" where
  "parseFloat_str s =
     (case strip_sign (dropWhile is_ws s) of
        (neg, r) \<Rightarrow>
          (let v = (if take 8 r = ''Infinity'' then PosInf
                    else case unsigned_decimal r of None \<Rightarrow> NaN | Some (q, _) \<Rightarrow> read_double q)
           in if neg then negate v else v))"

text \<open>
  \<^verbatim>\<open>parseFloat(v)\<close> on a value: the argument is first converted to a string. A number
  prints to a string that reads back as itself; \<^verbatim>\<open>undefined\<close>, \<^verbatim>\<open>null\<close>, booleans and
  plain objects print to words that are no literal; an array prints its elements
  separated by commas, so only its first element can be read.
\<close>

fun parseFloat :: "jsval \<Rightarrow> jsnum" where
  "parseFloat JUndefined = NaN"
| "parseFloat JNull = NaN"
| "parseFloat (JBool b) = NaN"
| "parseFloat (JNum n) = n"
| "parseFloat (JStr s) = parseFloat_str s"
| "parseFloat (JArr []) = NaN"
| "parseFloat (JArr (x # xs)) = parseFloat x"
| "parseFloat (JObj kvs) = NaN"

subsection \<open>Conversion to a number, and \<^verbatim>\<open>slice\<close>\<close>

definition trim :: "string \<Rightarrow> string" where
  "trim s = rev (dropWhile is_ws (rev (dropWhile is_ws s)))"

text \<open>The value of a string of digits in base \<open>b\<close>; nothing when a character is no digit of that base.\<close>

definition radix_val :: "nat \<Rightarrow> string \<Rightarrow> nat option" where
  "radix_val b ds =
     (let vs = map (map_of (zip ''0123456789abcdefABCDEF''
                                [0, 1, 2, 3, 4, 5, 6, 7, 8, 9, 10, 11, 12, 13, 14, 15, 10, 11, 12, 13, 14, 15])) ds
      in if ds \<noteq> [] \<and> (\<forall>v \<in> set vs. case v of None \<Rightarrow> False | Some d \<Rightarrow> d < b)
         then Some (foldl (\<lambda>a v. b * a + the v) 0 vs)
         else None)"

text \<open>
  StringToNumber: the whole string, white space at both ends apart, must be a numeric
  literal; the empty string is \<open>0\<close>; a literal in base 16, 8 or 2 carries no sign.
\<close>

definition stringToNumber :: "string \<Rightarrow> jsnum" where
  "stringToNumber s =
     (let t = trim s in
      if t = [] then Fin 0
      else if take 2 t \<in> {''0x'', ''0X''} then
        (case radix_val 16 (drop 2 t) of None \<Rightarrow> NaN | Some n \<Rightarrow> read_double (of_nat n))
      else if take 2 t \<in> {''0o'', ''0O''} then
        (case radix_val 8 (drop 2 t) of None \<Rightarrow> NaN | Some n \<Rightarrow> read_double (of_nat n))
      else if take 2 t \<in> {''0b'', ''0B''} then
        (case radix_val 2 (drop 2 t) of None \<Rightarrow> NaN | Some n \<Rightarrow> read_double (of_nat n))
      else
        (case strip_sign t of
           (neg, r) \<Rightarrow>
             (let v = (if r = ''Infinity'' then PosInf
                       else case unsigned_decimal r of
                              Some (q, []) \<Rightarrow> read_double q
                            | _ \<Rightarrow> NaN)
              in if neg then negate v else v)))"

text \<open>
  ToNumber. An array is first printed: the empty array prints to the empty string, an
  array of one element to what that element prints to (\<^verbatim>\<open>null\<close> and \<^verbatim>\<open>undefined\<close> to
  nothing), a longer one to a string with a comma in it, which is no number.
\<close>

fun toNumber :: "jsval \<Rightarrow> jsnum" where
  "toNumber JUndefined = NaN"
| "toNumber JNull = Fin 0"
| "toNumber (JBool b) = Fin (if b then 1 else 0)"
| "toNumber (JNum n) = n"
| "toNumber (JStr s) = stringToNumber s"
| "toNumber (JArr []) = Fin 0"
| "toNumber (JArr [x]) =
     (case x of
        JUndefined \<Rightarrow> Fin 0
      | JNull \<Rightarrow> Fin 0
      | JBool b \<Rightarrow> NaN
      | JNum n \<Rightarrow> n
      | JStr s \<Rightarrow> stringToNumber s
      | JArr ys \<Rightarrow> toNumber (JArr ys)
      | JObj kvs \<Rightarrow> NaN)"
| "toNumber (JArr (x # y # zs)) = NaN"
| "toNumber (JObj kvs) = NaN"

text \<open>Truncation towards zero.\<close>

definition trunc :: "rat \<Rightarrow> int" where
  "trunc q = (if 0 \<le> q then \<lfloor>q\<rfloor> else \<lceil>q\<rceil>)"

text \<open>ToIntegerOrInfinity: \<open>NaN\<close> becomes \<open>0\<close>, a finite number loses its fraction.\<close>

definition toIntegerOrInfinity :: "jsnum \<Rightarrow> jsnum" where
  "toIntegerOrInfinity n =
     (case n of NaN \<Rightarrow> Fin 0 | Fin q \<Rightarrow> Fin (of_int (trunc q)) | PosInf \<Rightarrow> PosInf | NegInf \<Rightarrow> NegInf)"

text \<open>
  \<^verbatim>\<open>xs.slice(0, end)\<close>. An end that is \<^verbatim>\<open>undefined\<close> means the length; a negative end
  counts from the back; the end is clamped to the list.
\<close>

definition slice0 :: "'a list \<Rightarrow> jsval \<Rightarrow> 'a list" where
  "slice0 xs stop =
     (let len = int (length xs) in
      if stop = JUndefined then xs
      else case toIntegerOrInfinity (toNumber stop) of
             NegInf \<Rightarrow> []
           | PosInf \<Rightarrow> xs
           | NaN \<Rightarrow> []
           | Fin q \<Rightarrow>
               (let relativeEnd = trunc q;
                    final = (if relativeEnd < 0 then max (len + relativeEnd) 0
                             else min relativeEnd len)
                in take (nat final) xs))"

text \<open>
  A \<^verbatim>\<open>Date\<close> handed to the SDK: either built from a time in milliseconds, or
  \<^verbatim>\<open>new Date(v)\<close> for a value of the request, which is passed on as it is.
\<close>

datatype jsdate = DateMs int | DateOf jsval

section \<open>The MetaApi SDK as the gateway's environment\<close>

text \<open>
  Every call the gateway makes on the SDK either returns or throws. A thrown value is
  an \<^verbatim>\<open>Error\<close> with its message. A call that never settles is outside the model: an
  \<^verbatim>\<open>await\<close> is taken to come back.
\<close>

datatype js_error = Error (message: string)

text \<open>The calls on the SDK, with their arguments, in the order the gateway makes them.\<close>

datatype call =
    NewMetaApi jsval
  | GetAccountsWithClassicPagination
  | GetAccount jsval
  | Deploy
  | WaitDeployed
  | GetRPCConnection
  | Connect
  | WaitSynchronized
  | GetAccountInformation
  | CreateMarketBuyOrder jsval jsval jsval jsval
  | CreateMarketSellOrder jsval jsval jsval jsval
  | GetPositions
  | ClosePosition jsval
  | GetHistoryDealsByTimeRange jsdate jsdate

text \<open>
  The SDK is a parameter: a record of its methods over a state \<open>'s\<close> of its own (the
  provider, the network, the accounts), which every call may read and change. Nothing
  is assumed of it, so a theorem about all \<open>'s provider\<close> holds for the real SDK and
  for any stub.
\<close>

type_synonym ('s, 'a) sdk = "'s \<Rightarrow> (js_error + 'a) \<times> 's"

record accounts_page =
  items :: "jsobj list"

record 's provider =
  newMetaApi :: "jsval \<Rightarrow> ('s, unit) sdk"
  getAccountsWithClassicPagination :: "('s, accounts_page) sdk"
  getAccount :: "jsval \<Rightarrow> ('s, jsobj) sdk"
  deploy :: "('s, unit) sdk"
  waitDeployed :: "('s, unit) sdk"
  getRPCConnection :: "('s, unit) sdk"
  connect :: "('s, unit) sdk"
  waitSynchronized :: "('s, unit) sdk"
  getAccountInformation :: "('s, jsobj) sdk"
  createMarketBuyOrder :: "jsval \<Rightarrow> jsval \<Rightarrow> jsval \<Rightarrow> jsval \<Rightarrow> ('s, jsobj) sdk"
  createMarketSellOrder :: "jsval \<Rightarrow> jsval \<Rightarrow> jsval \<Rightarrow> jsval \<Rightarrow> ('s, jsobj) sdk"
  getPositions :: "('s, jsobj list) sdk"
  closePosition :: "jsval \<Rightarrow> ('s, jsobj) sdk"
  getHistoryDealsByTimeRange :: "jsdate \<Rightarrow> jsdate \<Rightarrow> ('s, jsobj list) sdk"

text \<open>
  A request runs in a world: the state of the SDK and the log of the calls made on it so
  far. The log is how a theorem says which calls a request made, and in what order.
\<close>

type_synonym 's world = "'s \<times> call list"

type_synonym ('s, 'a) prog = "'s world \<Rightarrow> (js_error + 'a) \<times> 's world"

definition ret :: "'a \<Rightarrow> ('s, 'a) prog" where
  "ret x = (\<lambda>w. (Inr x, w))"

definition throw :: "js_error \<Rightarrow> ('s, 'a) prog" where
  "throw e = (\<lambda>w. (Inl e, w))"

text \<open>Sequencing: a throw skips what follows.\<close>

definition bind :: "('s, 'a) prog \<Rightarrow> ('a \<Rightarrow> ('s, 'b) prog) \<Rightarrow> ('s, 'b) prog" where
  "bind m f = (\<lambda>w. case m w of (Inl e, w') \<Rightarrow> (Inl e, w') | (Inr x, w') \<Rightarrow> f x w')"

text \<open>One call on the SDK: it is logged, whether it returns or throws.\<close>

definition invoke :: "call \<Rightarrow> ('s, 'a) sdk \<Rightarrow> ('s, 'a) prog" where
  "invoke c f = (\<lambda>(s, tr). case f s of (r, s') \<Rightarrow> (r, (s', tr @ [c])))"

text \<open>The HTTP response: \<^verbatim>\<open>res.status(n).json(v)\<close>; the value is what is handed to \<^verbatim>\<open>res.json\<close>.\<close>

record response =
  status :: nat
  payload :: jsval

definition reply :: "nat \<Rightarrow> (string \<times> jsval) list \<Rightarrow> response" where
  "reply n kvs = \<lparr>status = n, payload = JObj kvs\<rparr>"

text \<open>
  The \<^verbatim>\<open>catch\<close> block every route ends with: the response is a 500 whose \<^verbatim>\<open>error\<close>
  is \<^verbatim>\<open>error.message || fallback\<close>, the fallback being a text fixed per route.
\<close>

definition failure :: "string \<Rightarrow> js_error \<Rightarrow> response" where
  "failure fallback error =
     reply 500 [(''success'', JBool False),
                (''error'', js_or (JStr (message error)) (JStr fallback))]"

text \<open>A route: what its \<^verbatim>\<open>try\<close> block returns is the response; what it throws goes to the \<^verbatim>\<open>catch\<close>.\<close>

definition catch_route :: "string \<Rightarrow> ('s, response) prog \<Rightarrow> 's world \<Rightarrow> response \<times> 's world" where
  "catch_route fallback m w =
     (case m w of
        (Inr r, w') \<Rightarrow> (r, w')
      | (Inl error, w') \<Rightarrow> (failure fallback error, w'))"

text \<open>
  The method call \<^verbatim>\<open>direction.toUpperCase()\<close>: on anything but a string there is no such
  method, and the call throws a \<^verbatim>\<open>TypeError\<close>.
\<close>

definition call_toUpperCase :: "jsval \<Rightarrow> ('s, string) prog" where
  "call_toUpperCase v =
     (case v of
        JStr s \<Rightarrow> ret (toUpperCase s)
      | _ \<Rightarrow> throw (Error ''direction.toUpperCase is not a function''))"

subsection \<open>Conversions that can throw\<close>

text \<open>
  Printing a value, or converting it to a number, asks an object for its \<^verbatim>\<open>toString\<close>. An
  object of the body that has a property of that name hides the built-in method with
  something that cannot be called, and the conversion throws a \<^verbatim>\<open>TypeError\<close>. An array
  prints its elements, so it throws when one of them does.
\<close>

fun printable :: "jsval \<Rightarrow> bool" where
  "printable (JObj kvs) = (''toString'' \<notin> set (map fst kvs))"
| "printable (JArr xs) = (\<forall>x \<in> set xs. printable x)"
| "printable v = True"

definition primitive_error :: js_error where
  "primitive_error = Error ''Cannot convert object to primitive value''"

text \<open>A template literal with these values in it (the argument of a \<^verbatim>\<open>console.log\<close>).\<close>

definition template :: "jsval list \<Rightarrow> ('s, unit) prog" where
  "template vs = (if \<forall>v \<in> set vs. printable v then ret () else throw primitive_error)"

text \<open>The call \<^verbatim>\<open>parseFloat(v)\<close>.\<close>

definition js_parseFloat :: "jsval \<Rightarrow> ('s, jsnum) prog" where
  "js_parseFloat v = (if printable v then ret (parseFloat v) else throw primitive_error)"

text \<open>The call \<^verbatim>\<open>xs.slice(0, end)\<close>.\<close>

definition js_slice0 :: "'a list \<Rightarrow> jsval \<Rightarrow> ('s, 'a list) prog" where
  "js_slice0 xs stop = (if printable stop then ret (slice0 xs stop) else throw primitive_error)"

text \<open>The construction \<^verbatim>\<open>new Date(v)\<close>.\<close>

definition new_Date :: "jsval \<Rightarrow> ('s, jsdate) prog" where
  "new_Date v = (if printable v then ret (DateOf v) else throw primitive_error)"

text \<open>The two readings of the clock a history request makes.\<close>

record clock =
  dateNow :: int
  newDate :: int

section \<open>The routes of \<^verbatim>\<open>server.js\<close>\<close>

text \<open>
  Each route is a \<^verbatim>\<open>try\<close> block (named \<open>_try\<close> here) inside the route's \<^verbatim>\<open>catch\<close>. The
  request body is the object \<^verbatim>\<open>express.json()\<close> parsed. Of a \<^verbatim>\<open>console.log\<close> only the
  template literal is kept, and only where it prints a value of the body or of the SDK,
  since printing such a value can throw. The file holds the accounts and the
  test-connection routes twice, with the same code; they are modelled once.
\<close>

subsection \<open>\<^verbatim>\<open>POST /api/metaapi/accounts\<close>\<close>

definition cleanAccount :: "jsobj \<Rightarrow> jsval" where
  "cleanAccount acc =
     JObj [(''id'', getp acc ''id''),
           (''name'', getp acc ''name''),
           (''type'', getp acc ''type''),
           (''login'', getp acc ''login''),
           (''server'', getp acc ''server''),
           (''region'', getp acc ''region''),
           (''state'', getp acc ''state''),
           (''connectionStatus'', getp acc ''connectionStatus''),
           (''magic'', getp acc ''magic'')]"

definition accounts_try :: "'s provider \<Rightarrow> jsobj \<Rightarrow> ('s, response) prog" where
  "accounts_try P body =
     (let token = getp body ''token'' in
      if \<not> truthy token then ret (reply 400 [(''error'', JStr ''Token is required'')])
      else
        bind (invoke (NewMetaApi token) (newMetaApi P token)) (\<lambda>metaApi.
        bind (invoke GetAccountsWithClassicPagination (getAccountsWithClassicPagination P))
          (\<lambda>accountsData.
        let accounts = items accountsData;
            cleanAccounts = map cleanAccount accounts
        in ret (reply 200 [(''success'', JBool True), (''accounts'', JArr cleanAccounts)]))))"

definition accounts :: "'s provider \<Rightarrow> jsobj \<Rightarrow> 's world \<Rightarrow> response \<times> 's world" where
  "accounts P body = catch_route ''Failed to fetch accounts'' (accounts_try P body)"

subsection \<open>\<^verbatim>\<open>POST /api/metaapi/test-connection\<close>\<close>

definition test_connection_try :: "'s provider \<Rightarrow> jsobj \<Rightarrow> ('s, response) prog" where
  "test_connection_try P body =
     (let token = getp body ''token'';
          accountId = getp body ''accountId'' in
      if \<not> truthy token \<or> \<not> truthy accountId
      then ret (reply 400 [(''error'', JStr ''Token and accountId are required'')])
      else
        bind (template [accountId]) (\<lambda>_.
        bind (invoke (NewMetaApi token) (newMetaApi P token)) (\<lambda>metaApi.
        bind (invoke (GetAccount accountId) (getAccount P accountId)) (\<lambda>account.
        bind (if getp account ''state'' \<noteq> JStr ''DEPLOYED''
              then bind (invoke Deploy (deploy P)) (\<lambda>_. invoke WaitDeployed (waitDeployed P))
              else ret ()) (\<lambda>_.
        bind (invoke GetRPCConnection (getRPCConnection P)) (\<lambda>connection.
        bind (invoke Connect (connect P)) (\<lambda>_.
        bind (invoke WaitSynchronized (waitSynchronized P)) (\<lambda>_.
        bind (invoke GetAccountInformation (getAccountInformation P)) (\<lambda>accountInfo.
        ret (reply 200 [(''success'', JBool True),
                        (''message'', JStr ''Connection successful''),
                        (''balance'', getp accountInfo ''balance''),
                        (''equity'', getp accountInfo ''equity''),
                        (''currency'', getp accountInfo ''currency'')]))))))))))"

definition test_connection :: "'s provider \<Rightarrow> jsobj \<Rightarrow> 's world \<Rightarrow> response \<times> 's world" where
  "test_connection P body = catch_route ''Connection test failed'' (test_connection_try P body)"

subsection \<open>\<^verbatim>\<open>POST /api/metaapi/execute-trade\<close>\<close>

text \<open>The response once an order is placed (the code after the \<^verbatim>\<open>if\<close> chain).\<close>

definition trade_executed :: "jsobj \<Rightarrow> response" where
  "trade_executed result =
     reply 200 [(''success'', JBool True),
                (''result'', JObj [(''order'', getp result ''orderId''),
                                   (''position'', getp result ''positionId''),
                                   (''status'', JStr ''executed'')])]"

definition execute_trade_try :: "'s provider \<Rightarrow> jsobj \<Rightarrow> ('s, response) prog" where
  "execute_trade_try P body =
     (let token = getp body ''token'';
          accountId = getp body ''accountId'';
          symbol = getp body ''symbol'';
          direction = getp body ''direction'';
          volume = getp body ''volume'';
          stopLoss = getp body ''stopLoss'';
          takeProfit = getp body ''takeProfit'' in
      if \<not> truthy token \<or> \<not> truthy accountId \<or> \<not> truthy symbol \<or> \<not> truthy direction
         \<or> \<not> truthy volume
      then ret (reply 400
             [(''success'', JBool False),
              (''error'', JStr ''Missing required fields: token, accountId, symbol, direction, volume'')])
      else
        bind (template [direction, volume, symbol]) (\<lambda>_.
        bind (invoke (NewMetaApi token) (newMetaApi P token)) (\<lambda>metaApi.
        bind (invoke (GetAccount accountId) (getAccount P accountId)) (\<lambda>account.
        bind (if getp account ''state'' \<noteq> JStr ''DEPLOYED''
              then bind (invoke Deploy (deploy P)) (\<lambda>_. invoke WaitDeployed (waitDeployed P))
              else ret ()) (\<lambda>_.
        bind (invoke GetRPCConnection (getRPCConnection P)) (\<lambda>connection.
        bind (invoke Connect (connect P)) (\<lambda>_.
        bind (invoke WaitSynchronized (waitSynchronized P)) (\<lambda>_.
        bind (call_toUpperCase direction) (\<lambda>upper.
        if upper = ''BUY'' then
          bind (js_parseFloat volume) (\<lambda>v.
          bind (js_parseFloat stopLoss) (\<lambda>sl.
          bind (js_parseFloat takeProfit) (\<lambda>tp.
          bind (invoke (CreateMarketBuyOrder symbol (JNum v) (js_or (JNum sl) JUndefined)
                          (js_or (JNum tp) JUndefined))
                  (createMarketBuyOrder P symbol (JNum v) (js_or (JNum sl) JUndefined)
                     (js_or (JNum tp) JUndefined)))
            (\<lambda>result.
          bind (template [getp result ''orderId'']) (\<lambda>_.
          ret (trade_executed result))))))
        else
          bind (call_toUpperCase direction) (\<lambda>upper.
          if upper = ''SELL'' then
            bind (js_parseFloat volume) (\<lambda>v.
            bind (js_parseFloat stopLoss) (\<lambda>sl.
            bind (js_parseFloat takeProfit) (\<lambda>tp.
            bind (invoke (CreateMarketSellOrder symbol (JNum v) (js_or (JNum sl) JUndefined)
                            (js_or (JNum tp) JUndefined))
                    (createMarketSellOrder P symbol (JNum v) (js_or (JNum sl) JUndefined)
                       (js_or (JNum tp) JUndefined)))
              (\<lambda>result.
            bind (template [getp result ''orderId'']) (\<lambda>_.
            ret (trade_executed result))))))
          else
            ret (reply 400 [(''success'', JBool False),
                            (''error'', JStr ''Direction must be BUY or SELL'')])))))))))))"

definition execute_trade :: "'s provider \<Rightarrow> jsobj \<Rightarrow> 's world \<Rightarrow> response \<times> 's world" where
  "execute_trade P body = catch_route ''Trade execution failed'' (execute_trade_try P body)"

subsection \<open>\<^verbatim>\<open>POST /api/metaapi/get-positions\<close>\<close>

definition positionProjection :: "jsobj \<Rightarrow> jsval" where
  "positionProjection pos =
     JObj [(''id'', getp pos ''id''),
           (''symbol'', getp pos ''symbol''),
           (''type'', getp pos ''type''),
           (''volume'', getp pos ''volume''),
           (''openPrice'', getp pos ''openPrice''),
           (''currentPrice'', getp pos ''currentPrice''),
           (''profit'', getp pos ''profit''),
           (''swap'', getp pos ''swap''),
           (''commission'', getp pos ''commission''),
           (''stopLoss'', getp pos ''stopLoss''),
           (''takeProfit'', getp pos ''takeProfit''),
           (''time'', getp pos ''time'')]"

definition get_positions_try :: "'s provider \<Rightarrow> jsobj \<Rightarrow> ('s, response) prog" where
  "get_positions_try P body =
     (let token = getp body ''token'';
          accountId = getp body ''accountId'' in
      if \<not> truthy token \<or> \<not> truthy accountId
      then ret (reply 400 [(''error'', JStr ''Token and accountId are required'')])
      else
        bind (template [accountId]) (\<lambda>_.
        bind (invoke (NewMetaApi token) (newMetaApi P token)) (\<lambda>metaApi.
        bind (invoke (GetAccount accountId) (getAccount P accountId)) (\<lambda>account.
        bind (if getp account ''state'' \<noteq> JStr ''DEPLOYED''
              then bind (invoke Deploy (deploy P)) (\<lambda>_. invoke WaitDeployed (waitDeployed P))
              else ret ()) (\<lambda>_.
        bind (invoke GetRPCConnection (getRPCConnection P)) (\<lambda>connection.
        bind (invoke Connect (connect P)) (\<lambda>_.
        bind (invoke WaitSynchronized (waitSynchronized P)) (\<lambda>_.
        bind (invoke GetPositions (getPositions P)) (\<lambda>positions.
        ret (reply 200 [(''success'', JBool True),
                        (''positions'', JArr (map positionProjection positions))]))))))))))"

definition get_positions :: "'s provider \<Rightarrow> jsobj \<Rightarrow> 's world \<Rightarrow> response \<times> 's world" where
  "get_positions P body = catch_route ''Failed to fetch positions'' (get_positions_try P body)"

subsection \<open>\<^verbatim>\<open>POST /api/metaapi/close-position\<close>\<close>

definition close_position_try :: "'s provider \<Rightarrow> jsobj \<Rightarrow> ('s, response) prog" where
  "close_position_try P body =
     (let token = getp body ''token'';
          accountId = getp body ''accountId'';
          positionId = getp body ''positionId'' in
      if \<not> truthy token \<or> \<not> truthy accountId \<or> \<not> truthy positionId
      then ret (reply 400 [(''error'', JStr ''Token, accountId, and positionId are required'')])
      else
        bind (template [positionId]) (\<lambda>_.
        bind (invoke (NewMetaApi token) (newMetaApi P token)) (\<lambda>metaApi.
        bind (invoke (GetAccount accountId) (getAccount P accountId)) (\<lambda>account.
        bind (invoke GetRPCConnection (getRPCConnection P)) (\<lambda>connection.
        bind (invoke Connect (connect P)) (\<lambda>_.
        bind (invoke WaitSynchronized (waitSynchronized P)) (\<lambda>_.
        bind (invoke (ClosePosition positionId) (closePosition P positionId)) (\<lambda>result.
        bind (template [positionId]) (\<lambda>_.
        ret (reply 200
               [(''success'', JBool True),
                (''result'', JObj [(''orderId'', getp result ''orderId''),
                                   (''message'', JStr ''Position closed successfully'')])]))))))))))"

definition close_position :: "'s provider \<Rightarrow> jsobj \<Rightarrow> 's world \<Rightarrow> response \<times> 's world" where
  "close_position P body = catch_route ''Failed to close position'' (close_position_try P body)"

subsection \<open>\<^verbatim>\<open>POST /api/metaapi/close-all-positions\<close>\<close>

text \<open>
  The \<^verbatim>\<open>for\<close> loop over the positions, with its own \<^verbatim>\<open>try\<close> and \<^verbatim>\<open>catch\<close> around each
  close: \<open>results\<close> is the list built so far, to which one entry is pushed per position.
\<close>

fun close_each :: "'s provider \<Rightarrow> jsobj list \<Rightarrow> jsval list \<Rightarrow> 's world \<Rightarrow> jsval list \<times> 's world" where
  "close_each P [] results w = (results, w)"
| "close_each P (position # rest) results w =
     (case invoke (ClosePosition (getp position ''id'')) (closePosition P (getp position ''id'')) w of
        (Inr result, w') \<Rightarrow>
          close_each P rest
            (results @ [JObj [(''positionId'', getp position ''id''),
                              (''success'', JBool True),
                              (''orderId'', getp result ''orderId'')]]) w'
      | (Inl error, w') \<Rightarrow>
          close_each P rest
            (results @ [JObj [(''positionId'', getp position ''id''),
                              (''success'', JBool False),
                              (''error'', JStr (message error))]]) w')"

definition close_all_positions_try :: "'s provider \<Rightarrow> jsobj \<Rightarrow> ('s, response) prog" where
  "close_all_positions_try P body =
     (let token = getp body ''token'';
          accountId = getp body ''accountId'' in
      if \<not> truthy token \<or> \<not> truthy accountId
      then ret (reply 400 [(''error'', JStr ''Token and accountId are required'')])
      else
        bind (template [accountId]) (\<lambda>_.
        bind (invoke (NewMetaApi token) (newMetaApi P token)) (\<lambda>metaApi.
        bind (invoke (GetAccount accountId) (getAccount P accountId)) (\<lambda>account.
        bind (invoke GetRPCConnection (getRPCConnection P)) (\<lambda>connection.
        bind (invoke Connect (connect P)) (\<lambda>_.
        bind (invoke WaitSynchronized (waitSynchronized P)) (\<lambda>_.
        bind (invoke GetPositions (getPositions P)) (\<lambda>positions.
        bind (\<lambda>w. case close_each P positions [] w of (results, w') \<Rightarrow> (Inr results, w'))
          (\<lambda>results.
        ret (reply 200
               [(''success'', JBool True),
                (''message'',
                   JStr (''Closed '' @ show_nat (length (filter (\<lambda>r. truthy (jsprop r ''success'')) results))
                         @ '' positions'')),
                (''results'', JArr results)]))))))))))"

definition close_all_positions :: "'s provider \<Rightarrow> jsobj \<Rightarrow> 's world \<Rightarrow> response \<times> 's world" where
  "close_all_positions P body =
     catch_route ''Failed to close all positions'' (close_all_positions_try P body)"

subsection \<open>\<^verbatim>\<open>POST /api/metaapi/get-history\<close>\<close>

definition dealProjection :: "jsobj \<Rightarrow> jsval" where
  "dealProjection deal =
     JObj [(''id'', getp deal ''id''),
           (''symbol'', getp deal ''symbol''),
           (''type'', getp deal ''type''),
           (''volume'', getp deal ''volume''),
           (''entryPrice'', getp deal ''entryPrice''),
           (''price'', getp deal ''price''),
           (''profit'', getp deal ''profit''),
           (''commission'', getp deal ''commission''),
           (''swap'', getp deal ''swap''),
           (''time'', getp deal ''time''),
           (''platform'', getp deal ''platform''),
           (''magic'', getp deal ''magic''),
           (''comment'', getp deal ''comment'')]"

text \<open>
  The default of the destructuring \<^verbatim>\<open>limit = 20\<close> is taken when the property reads as
  \<^verbatim>\<open>undefined\<close>, and only then.
\<close>

definition get_history_try :: "'s provider \<Rightarrow> clock \<Rightarrow> jsobj \<Rightarrow> ('s, response) prog" where
  "get_history_try P clk body =
     (let token = getp body ''token'';
          accountId = getp body ''accountId'';
          limit = (if getp body ''limit'' = JUndefined then JNum (Fin 20) else getp body ''limit'');
          startTime = getp body ''startTime'' in
      if \<not> truthy token \<or> \<not> truthy accountId
      then ret (reply 400 [(''error'', JStr ''Token and accountId are required'')])
      else
        bind (template [accountId]) (\<lambda>_.
        bind (invoke (NewMetaApi token) (newMetaApi P token)) (\<lambda>metaApi.
        bind (invoke (GetAccount accountId) (getAccount P accountId)) (\<lambda>account.
        bind (if getp account ''state'' \<noteq> JStr ''DEPLOYED''
              then bind (invoke Deploy (deploy P)) (\<lambda>_. invoke WaitDeployed (waitDeployed P))
              else ret ()) (\<lambda>_.
        bind (invoke GetRPCConnection (getRPCConnection P)) (\<lambda>connection.
        bind (invoke Connect (connect P)) (\<lambda>_.
        bind (invoke WaitSynchronized (waitSynchronized P)) (\<lambda>_.
        bind (if truthy startTime then new_Date startTime
              else ret (DateMs (dateNow clk - 30 * 24 * 60 * 60 * 1000))) (\<lambda>historyStartTime.
        bind (invoke (GetHistoryDealsByTimeRange historyStartTime (DateMs (newDate clk)))
                (getHistoryDealsByTimeRange P historyStartTime (DateMs (newDate clk))))
          (\<lambda>deals.
        bind (js_slice0 (map dealProjection deals) limit) (\<lambda>sliced.
        ret (reply 200 [(''success'', JBool True), (''deals'', JArr sliced)]))))))))))))"

definition get_history :: "'s provider \<Rightarrow> clock \<Rightarrow> jsobj \<Rightarrow> 's world \<Rightarrow> response \<times> 's world" where
  "get_history P clk body = catch_route ''Failed to fetch history'' (get_history_try P clk body)"

subsection \<open>The route table\<close>

datatype operation =
    Accounts
  | TestConnection
  | ExecuteTrade
  | GetPositionsOp
  | ClosePositionOp
  | CloseAllPositions
  | GetHistory



fun route :: "operation \<Rightarrow> 's provider \<Rightarrow> clock \<Rightarrow> jsobj \<Rightarrow> 's world \<Rightarrow> response \<times> 's world" where
  "route Accounts P clk body = accounts P body"
| "route TestConnection P clk body = test_connection P body"
| "route ExecuteTrade P clk body = execute_trade P body"
| "route GetPositionsOp P clk body = get_positions P body"
| "route ClosePositionOp P clk body = close_position P body"
| "route CloseAllPositions P clk body = close_all_positions P body"
| "route GetHistory P clk body = get_history P clk body"

section \<open>The steps every channel route shares\<close>

text \<open>
  The routes repeat the same lines. They are named here, to state what a route does once
  those lines have run; the lemmas \<open>_factor\<close> below show that each route is made of
  them.

  The lifecycle guard: deploy, and wait for it, unless the account reports \<^verbatim>\<open>DEPLOYED\<close>.
\<close>

definition lifecycle_guard :: "'s provider \<Rightarrow> jsobj \<Rightarrow> ('s, unit) prog" where
  "lifecycle_guard P account =
     (if getp account ''state'' \<noteq> JStr ''DEPLOYED''
      then bind (invoke Deploy (deploy P)) (\<lambda>_. invoke WaitDeployed (waitDeployed P))
      else ret ())"

text \<open>Opening the channel: get the RPC connection, connect, wait until synchronized.\<close>

definition connect_synchronized :: "'s provider \<Rightarrow> ('s, unit) prog" where
  "connect_synchronized P =
     bind (invoke GetRPCConnection (getRPCConnection P)) (\<lambda>connection.
     bind (invoke Connect (connect P)) (\<lambda>_.
     invoke WaitSynchronized (waitSynchronized P)))"

text \<open>
  The printed line, the client, the account, the guard and the channel: as in
  test-connection, execute-trade, get-positions and get-history. \<open>logged\<close> are the
  values the route prints first.
\<close>

definition guarded_session :: "'s provider \<Rightarrow> jsval list \<Rightarrow> jsval \<Rightarrow> jsval \<Rightarrow> ('s, unit) prog" where
  "guarded_session P logged token accountId =
     bind (template logged) (\<lambda>_.
     bind (invoke (NewMetaApi token) (newMetaApi P token)) (\<lambda>metaApi.
     bind (invoke (GetAccount accountId) (getAccount P accountId)) (\<lambda>account.
     bind (lifecycle_guard P account) (\<lambda>_. connect_synchronized P))))"

text \<open>The printed line, the client, the account and the channel: as in close-position and close-all-positions.\<close>

definition unguarded_session :: "'s provider \<Rightarrow> jsval list \<Rightarrow> jsval \<Rightarrow> jsval \<Rightarrow> ('s, unit) prog" where
  "unguarded_session P logged token accountId =
     bind (template logged) (\<lambda>_.
     bind (invoke (NewMetaApi token) (newMetaApi P token)) (\<lambda>metaApi.
     bind (invoke (GetAccount accountId) (getAccount P accountId)) (\<lambda>account.
     connect_synchronized P)))"

text \<open>The session of a route that prints the account id only.\<close>

definition account_session :: "'s provider \<Rightarrow> jsobj \<Rightarrow> ('s, unit) prog" where
  "account_session P body =
     guarded_session P [getp body ''accountId''] (getp body ''token'') (getp body ''accountId'')"

text \<open>The session of execute-trade, which prints the direction, the volume and the symbol.\<close>

definition trade_session :: "'s provider \<Rightarrow> jsobj \<Rightarrow> ('s, unit) prog" where
  "trade_session P body =
     guarded_session P [getp body ''direction'', getp body ''volume'', getp body ''symbol'']
       (getp body ''token'') (getp body ''accountId'')"

text \<open>The session of close-all-positions.\<close>

definition closing_session :: "'s provider \<Rightarrow> jsobj \<Rightarrow> ('s, unit) prog" where
  "closing_session P body =
     unguarded_session P [getp body ''accountId''] (getp body ''token'') (getp body ''accountId'')"

text \<open>The deal query of get-history: the start date, then the call from it to \<^verbatim>\<open>new Date()\<close>.\<close>

definition history_query :: "'s provider \<Rightarrow> clock \<Rightarrow> jsobj \<Rightarrow> ('s, jsobj list) prog" where
  "history_query P clk body =
     bind (if truthy (getp body ''startTime'') then new_Date (getp body ''startTime'')
           else ret (DateMs (dateNow clk - 30 * 24 * 60 * 60 * 1000))) (\<lambda>historyStartTime.
     invoke (GetHistoryDealsByTimeRange historyStartTime (DateMs (newDate clk)))
       (getHistoryDealsByTimeRange P historyStartTime (DateMs (newDate clk))))"

text \<open>The limit of a history request, the default taken.\<close>

definition history_limit :: "jsobj \<Rightarrow> jsval" where
  "history_limit body =
     (if getp body ''limit'' = JUndefined then JNum (Fin 20) else getp body ''limit'')"

definition history_reply :: "jsval list \<Rightarrow> response" where
  "history_reply ds = reply 200 [(''success'', JBool True), (''deals'', JArr ds)]"

text \<open>The order call of a direction, with the arguments the route computes from the body.\<close>

definition order_call :: "bool \<Rightarrow> jsobj \<Rightarrow> call" where
  "order_call buy body =
     (if buy then CreateMarketBuyOrder else CreateMarketSellOrder)
       (getp body ''symbol'')
       (JNum (parseFloat (getp body ''volume'')))
       (js_or (JNum (parseFloat (getp body ''stopLoss''))) JUndefined)
       (js_or (JNum (parseFloat (getp body ''takeProfit''))) JUndefined)"

definition place_order :: "'s provider \<Rightarrow> bool \<Rightarrow> jsobj \<Rightarrow> ('s, jsobj) sdk" where
  "place_order P buy body =
     (if buy then createMarketBuyOrder P else createMarketSellOrder P)
       (getp body ''symbol'')
       (JNum (parseFloat (getp body ''volume'')))
       (js_or (JNum (parseFloat (getp body ''stopLoss''))) JUndefined)
       (js_or (JNum (parseFloat (getp body ''takeProfit''))) JUndefined)"

definition direction_error :: response where
  "direction_error =
     reply 400 [(''success'', JBool False), (''error'', JStr ''Direction must be BUY or SELL'')]"

text \<open>
  Placing the order of a direction in a world the session of execute-trade has left (the
  volume is printed by then): the stops are parsed, the order call is made, the order id
  is printed. The result is the response and the world after it.
\<close>

definition run_order :: "'s provider \<Rightarrow> bool \<Rightarrow> jsobj \<Rightarrow> 's world \<Rightarrow> response \<times> 's world" where
  "run_order P buy body w =
     (case w of (s1, tr1) \<Rightarrow>
        if printable (getp body ''stopLoss'') \<and> printable (getp body ''takeProfit'') then
          (case place_order P buy body s1 of
             (Inr result, s2) \<Rightarrow>
               (if printable (getp result ''orderId'') then trade_executed result
                else failure ''Trade execution failed'' primitive_error,
                (s2, tr1 @ [order_call buy body]))
           | (Inl e, s2) \<Rightarrow>
               (failure ''Trade execution failed'' e, (s2, tr1 @ [order_call buy body])))
        else (failure ''Trade execution failed'' primitive_error, (s1, tr1)))"

subsection \<open>What each close of close-all-positions comes to\<close>

text \<open>The outcomes of closing the positions one after the other, from a state of the SDK.\<close>

fun close_outcomes :: "'s provider \<Rightarrow> jsobj list \<Rightarrow> 's \<Rightarrow> (js_error + jsobj) list" where
  "close_outcomes P [] s = []"
| "close_outcomes P (p # ps) s =
     (case closePosition P (getp p ''id'') s of (r, s') \<Rightarrow> r # close_outcomes P ps s')"

fun close_final :: "'s provider \<Rightarrow> jsobj list \<Rightarrow> 's \<Rightarrow> 's" where
  "close_final P [] s = s"
| "close_final P (p # ps) s =
     (case closePosition P (getp p ''id'') s of (r, s') \<Rightarrow> close_final P ps s')"

text \<open>The entry of a position in the results: its id, and the order id or the error message.\<close>

fun result_entry :: "jsobj \<Rightarrow> js_error + jsobj \<Rightarrow> jsval" where
  "result_entry p (Inr result) =
     JObj [(''positionId'', getp p ''id''), (''success'', JBool True),
           (''orderId'', getp result ''orderId'')]"
| "result_entry p (Inl e) =
     JObj [(''positionId'', getp p ''id''), (''success'', JBool False),
           (''error'', JStr (message e))]"

definition returned :: "js_error + 'a \<Rightarrow> bool" where
  "returned r = (case r of Inr _ \<Rightarrow> True | Inl _ \<Rightarrow> False)"

subsection \<open>Required fields, validation responses, account fields\<close>

text \<open>The fields each route checks before anything else.\<close>

fun required_fields :: "operation \<Rightarrow> string list" where
  "required_fields Accounts = [''token'']"
| "required_fields TestConnection = [''token'', ''accountId'']"
| "required_fields ExecuteTrade = [''token'', ''accountId'', ''symbol'', ''direction'', ''volume'']"
| "required_fields GetPositionsOp = [''token'', ''accountId'']"
| "required_fields ClosePositionOp = [''token'', ''accountId'', ''positionId'']"
| "required_fields CloseAllPositions = [''token'', ''accountId'']"
| "required_fields GetHistory = [''token'', ''accountId'']"

text \<open>The 400 response of each route's field check.\<close>

fun validation_error :: "operation \<Rightarrow> response" where
  "validation_error Accounts = reply 400 [(''error'', JStr ''Token is required'')]"
| "validation_error ExecuteTrade =
     reply 400 [(''success'', JBool False),
                (''error'', JStr ''Missing required fields: token, accountId, symbol, direction, volume'')]"
| "validation_error ClosePositionOp =
     reply 400 [(''error'', JStr ''Token, accountId, and positionId are required'')]"
| "validation_error op = reply 400 [(''error'', JStr ''Token and accountId are required'')]"

text \<open>The fields of an account projection, and the keys of an object literal.\<close>

definition account_fields :: "string list" where
  "account_fields =
     [''id'', ''name'', ''type'', ''login'', ''server'', ''region'', ''state'',
      ''connectionStatus'', ''magic'']"

definition object_keys :: "jsval \<Rightarrow> string list" where
  "object_keys v = (case v of JObj kvs \<Rightarrow> map fst kvs | _ \<Rightarrow> [])"

subsection \<open>A stub of the SDK\<close>

text \<open>
  A provider for the concrete runs below. Its state counts the calls made on it. It
  serves one account, a list of positions and a list of deals; \<open>refuse\<close> says which
  positions it fails to close, and with what error.
\<close>

definition stub :: "jsobj \<Rightarrow> jsobj list \<Rightarrow> jsobj list \<Rightarrow> (jsval \<Rightarrow> js_error option) \<Rightarrow> nat provider" where
  "stub account positions deals refuse =
     \<lparr>newMetaApi = (\<lambda>token n. (Inr (), Suc n)),
      getAccountsWithClassicPagination = (\<lambda>n. (Inr \<lparr>items = [account]\<rparr>, Suc n)),
      getAccount = (\<lambda>accountId n. (Inr account, Suc n)),
      deploy = (\<lambda>n. (Inr (), Suc n)),
      waitDeployed = (\<lambda>n. (Inr (), Suc n)),
      getRPCConnection = (\<lambda>n. (Inr (), Suc n)),
      connect = (\<lambda>n. (Inr (), Suc n)),
      waitSynchronized = (\<lambda>n. (Inr (), Suc n)),
      getAccountInformation = (\<lambda>n. (Inr Map.empty, Suc n)),
      createMarketBuyOrder = (\<lambda>symbol volume sl tp n. (Inr [''orderId'' \<mapsto> JStr ''o1''], Suc n)),
      createMarketSellOrder = (\<lambda>symbol volume sl tp n. (Inr [''orderId'' \<mapsto> JStr ''o2''], Suc n)),
      getPositions = (\<lambda>n. (Inr positions, Suc n)),
      closePosition = (\<lambda>positionId n.
         case refuse positionId of
           Some e \<Rightarrow> (Inl e, Suc n)
         | None \<Rightarrow> (Inr [''orderId'' \<mapsto> positionId], Suc n)),
      getHistoryDealsByTimeRange = (\<lambda>start finish n. (Inr deals, Suc n))\<rparr>"

definition account_in_state :: "string \<Rightarrow> jsobj" where
  "account_in_state st =
     [''id'' \<mapsto> JStr ''acc1'', ''name'' \<mapsto> JStr ''demo'', ''state'' \<mapsto> JStr st,
      ''accessToken'' \<mapsto> JStr ''secret'']"

definition request :: "(string \<times> jsval) list \<Rightarrow> jsobj" where
  "request kvs = map_of ([(''token'', JStr ''tok''), (''accountId'', JStr ''acc1'')] @ kvs)"

definition position :: "string \<Rightarrow> jsobj" where
  "position i = [''id'' \<mapsto> JStr i]"

definition deal :: "nat \<Rightarrow> jsobj" where
  "deal i = [''id'' \<mapsto> JNum (Fin (of_nat i))]"

definition frozen_clock :: "int \<Rightarrow> clock" where
  "frozen_clock now = \<lparr>dateNow = now, newDate = now\<rparr>"

definition deployed_stub :: "jsobj list \<Rightarrow> jsobj list \<Rightarrow> nat provider" where
  "deployed_stub positions deals = stub (account_in_state ''DEPLOYED'') positions deals (\<lambda>_. None)"

text \<open>The calls of a session on the stub, the account being deployed or the route having no guard.\<close>

definition session_calls :: "call list" where
  "session_calls =
     [NewMetaApi (JStr ''tok''), GetAccount (JStr ''acc1''), GetRPCConnection, Connect,
      WaitSynchronized]"

definition trade_request :: "string \<Rightarrow> (string \<times> jsval) list \<Rightarrow> jsobj" where
  "trade_request d kvs =
     request ([(''symbol'', JStr ''EURUSD''), (''direction'', JStr d),
               (''volume'', JNum (Fin (1 / 100)))] @ kvs)"


definition refuse_B :: "jsval \<Rightarrow> js_error option" where
  "refuse_B positionId = (if positionId = JStr ''B'' then Some (Error ''Market closed'') else None)"

section \<open>The SDK watched\<close>







section \<open>Reasoning about programs\<close>

lemma bind_ret: "bind (ret x) f = f x"
  by (simp add: bind_def ret_def)

lemma bind_throw: "bind (throw e) f = throw e"
  by (simp add: bind_def throw_def)

lemma bind_assoc: "bind (bind m f) g = bind m (\<lambda>x. bind (f x) g)"
  by (auto simp: bind_def fun_eq_iff split: prod.splits sum.splits)

lemma bind_Inr: "m w = (Inr x, w1) \<Longrightarrow> bind m f w = f x w1"
  by (simp add: bind_def)

lemma bind_Inl: "m w = (Inl e, w1) \<Longrightarrow> bind m f w = (Inl e, w1)"
  by (simp add: bind_def)


lemma invoke_Inr: "f s = (Inr x, s') \<Longrightarrow> invoke c f (s, tr) = (Inr x, (s', tr @ [c]))"
  by (simp add: invoke_def)

lemma invoke_Inl: "f s = (Inl e, s') \<Longrightarrow> invoke c f (s, tr) = (Inl e, (s', tr @ [c]))"
  by (simp add: invoke_def)

lemma catch_route_Inr: "m w = (Inr r, w') \<Longrightarrow> catch_route fb m w = (r, w')"
  by (simp add: catch_route_def)

lemma catch_route_Inl: "m w = (Inl e, w') \<Longrightarrow> catch_route fb m w = (failure fb e, w')"
  by (simp add: catch_route_def)

lemma failure_message:
  "failure fb e =
     reply 500 [(''success'', JBool False),
                (''error'', JStr (if message e = [] then fb else message e))]"
  by (simp add: failure_def js_or_def)

lemma getp_absent: "body k = None \<Longrightarrow> \<not> truthy (getp body k)"
  by (simp add: getp_def)

lemma template_returns: "template vs w = (Inr u, w1) \<longleftrightarrow> (\<forall>v \<in> set vs. printable v) \<and> w1 = w"
  by (auto simp: template_def ret_def throw_def)

lemma falsy_printable: "\<not> truthy v \<Longrightarrow> printable v"
  by (cases v) simp_all

subsection \<open>Each route is made of the shared steps\<close>

lemma test_connection_factor:
  assumes "truthy (getp body ''token'')" and "truthy (getp body ''accountId'')"
  shows "test_connection_try P body =
     bind (account_session P body) (\<lambda>_.
     bind (invoke GetAccountInformation (getAccountInformation P)) (\<lambda>accountInfo.
     ret (reply 200 [(''success'', JBool True),
                     (''message'', JStr ''Connection successful''),
                     (''balance'', getp accountInfo ''balance''),
                     (''equity'', getp accountInfo ''equity''),
                     (''currency'', getp accountInfo ''currency'')])))"
  using assms
  by (simp add: test_connection_try_def account_session_def guarded_session_def lifecycle_guard_def
      connect_synchronized_def bind_assoc bind_ret Let_def)

lemma get_positions_factor:
  assumes "truthy (getp body ''token'')" and "truthy (getp body ''accountId'')"
  shows "get_positions_try P body =
     bind (account_session P body) (\<lambda>_.
     bind (invoke GetPositions (getPositions P)) (\<lambda>positions.
     ret (reply 200 [(''success'', JBool True),
                     (''positions'', JArr (map positionProjection positions))])))"
  using assms
  by (simp add: get_positions_try_def account_session_def guarded_session_def lifecycle_guard_def
      connect_synchronized_def bind_assoc bind_ret Let_def)

lemma get_history_factor:
  assumes "truthy (getp body ''token'')" and "truthy (getp body ''accountId'')"
  shows "get_history_try P clk body =
     bind (account_session P body) (\<lambda>_.
     bind (history_query P clk body) (\<lambda>deals.
     bind (js_slice0 (map dealProjection deals) (history_limit body)) (\<lambda>sliced.
     ret (history_reply sliced))))"
  using assms
  by (simp add: get_history_try_def account_session_def guarded_session_def lifecycle_guard_def
      connect_synchronized_def history_query_def history_limit_def history_reply_def
      bind_assoc bind_ret Let_def)

lemma execute_trade_factor:
  assumes "truthy (getp body ''token'')" and "truthy (getp body ''accountId'')"
    and "truthy (getp body ''symbol'')" and "truthy (getp body ''volume'')"
    and "getp body ''direction'' = JStr d" and "d \<noteq> []"
  shows "execute_trade_try P body =
     bind (trade_session P body) (\<lambda>_.
       if toUpperCase d = ''BUY'' \<or> toUpperCase d = ''SELL'' then
         bind (js_parseFloat (getp body ''volume'')) (\<lambda>v.
         bind (js_parseFloat (getp body ''stopLoss'')) (\<lambda>sl.
         bind (js_parseFloat (getp body ''takeProfit'')) (\<lambda>tp.
         bind (invoke (order_call (toUpperCase d = ''BUY'') body)
                 (place_order P (toUpperCase d = ''BUY'') body)) (\<lambda>result.
         bind (template [getp result ''orderId'']) (\<lambda>_.
         ret (trade_executed result))))))
       else ret direction_error)"
  using assms
  by (auto simp: execute_trade_try_def trade_session_def guarded_session_def lifecycle_guard_def
      connect_synchronized_def order_call_def place_order_def direction_error_def
      call_toUpperCase_def js_parseFloat_def bind_assoc bind_ret bind_throw Let_def
      intro!: arg_cong2[where f = bind] ext)

lemma close_position_factor:
  assumes "truthy (getp body ''token'')" and "truthy (getp body ''accountId'')"
    and "truthy (getp body ''positionId'')"
  shows "close_position_try P body =
     bind (unguarded_session P [getp body ''positionId''] (getp body ''token'')
             (getp body ''accountId'')) (\<lambda>_.
     bind (invoke (ClosePosition (getp body ''positionId''))
             (closePosition P (getp body ''positionId''))) (\<lambda>result.
     bind (template [getp body ''positionId'']) (\<lambda>_.
     ret (reply 200
            [(''success'', JBool True),
             (''result'', JObj [(''orderId'', getp result ''orderId''),
                                (''message'', JStr ''Position closed successfully'')])]))))"
  using assms
  by (simp add: close_position_try_def unguarded_session_def connect_synchronized_def
      bind_assoc bind_ret Let_def)

lemma close_all_positions_factor:
  assumes "truthy (getp body ''token'')" and "truthy (getp body ''accountId'')"
  shows "close_all_positions_try P body =
     bind (closing_session P body) (\<lambda>_.
     bind (invoke GetPositions (getPositions P)) (\<lambda>positions.
     bind (\<lambda>w. case close_each P positions [] w of (results, w') \<Rightarrow> (Inr results, w'))
       (\<lambda>results.
     ret (reply 200
            [(''success'', JBool True),
             (''message'',
                JStr (''Closed '' @ show_nat (length (filter (\<lambda>r. truthy (jsprop r ''success'')) results))
                      @ '' positions'')),
             (''results'', JArr results)]))))"
  using assms
  by (simp add: close_all_positions_try_def closing_session_def unguarded_session_def
      connect_synchronized_def bind_assoc bind_ret Let_def)

text \<open>A session that succeeds printed its values, and made these calls: the guard sits between the account and the channel.\<close>

lemma guarded_session_printable:
  "guarded_session P logged token accountId w = (Inr u, w1) \<Longrightarrow> \<forall>v \<in> set logged. printable v"
  by (auto simp: guarded_session_def template_def bind_def ret_def throw_def split: if_splits)

lemma guarded_session_calls:
  assumes "guarded_session P logged token accountId (s, tr) = (Inr u, (s', tr'))"
  shows "\<exists>account s1 s2. getAccount P accountId s1 = (Inr account, s2) \<and>
           tr' = tr @ [NewMetaApi token, GetAccount accountId]
                    @ (if getp account ''state'' \<noteq> JStr ''DEPLOYED'' then [Deploy, WaitDeployed] else [])
                    @ [GetRPCConnection, Connect, WaitSynchronized]"
  using assms
  unfolding guarded_session_def lifecycle_guard_def connect_synchronized_def template_def
  by (fastforce simp: bind_def invoke_def ret_def throw_def split: prod.splits sum.splits if_splits)

text \<open>The calls of a session without the guard that succeeds: the state of the account is not looked at.\<close>

lemma unguarded_session_calls:
  assumes "unguarded_session P logged token accountId (s, tr) = (Inr u, (s', tr'))"
  shows "tr' = tr @ [NewMetaApi token, GetAccount accountId, GetRPCConnection, Connect,
                     WaitSynchronized]"
  using assms
  unfolding unguarded_session_def connect_synchronized_def template_def
  by (auto simp: bind_def invoke_def ret_def throw_def split: prod.splits sum.splits if_splits)

lemma session_contacts_provider:
  assumes "\<forall>v \<in> set logged. printable v"
  shows "\<exists>rest. snd (snd (guarded_session P logged token accountId (s, tr)))
           = tr @ NewMetaApi token # rest"
  using assms
  unfolding guarded_session_def lifecycle_guard_def connect_synchronized_def template_def
  by (auto simp: bind_def invoke_def ret_def split: prod.splits sum.splits if_splits)

section \<open>Runs on the stub\<close>

lemma request_token: "truthy (getp (request kvs) ''token'')"
  by (simp add: request_def getp_def)

lemma request_accountId: "truthy (getp (request kvs) ''accountId'')"
  by (simp add: request_def getp_def)

lemma deployed_stub_session:
  "account_session (deployed_stub ps ds) (request kvs) (0, []) = (Inr (), (5, session_calls))"
  by (simp add: account_session_def guarded_session_def lifecycle_guard_def connect_synchronized_def
      template_def deployed_stub_def stub_def account_in_state_def request_def getp_def
      session_calls_def bind_def invoke_def ret_def)

lemma deployed_stub_trade_session:
  "trade_session (deployed_stub ps ds) (trade_request d kvs) (0, []) = (Inr (), (5, session_calls))"
  by (simp add: trade_session_def guarded_session_def lifecycle_guard_def connect_synchronized_def
      template_def deployed_stub_def stub_def account_in_state_def trade_request_def request_def
      getp_def session_calls_def bind_def invoke_def ret_def)

lemma stub_closing_session:
  "closing_session (stub acc ps ds rf) (request kvs) (0, []) = (Inr (), (5, session_calls))"
  by (simp add: closing_session_def unguarded_session_def connect_synchronized_def template_def
      stub_def request_def getp_def session_calls_def bind_def invoke_def ret_def)

lemma trade_request_fields:
  "truthy (getp (trade_request d kvs) ''token'')"
  "truthy (getp (trade_request d kvs) ''accountId'')"
  "truthy (getp (trade_request d kvs) ''symbol'')"
  "truthy (getp (trade_request d kvs) ''volume'')"
  "getp (trade_request d kvs) ''direction'' = JStr d"
  by (simp_all add: trade_request_def request_def getp_def)

section \<open>The lifecycle guard\<close>

text \<open>
  C1. The claim fails on close-position and on close-all-positions: on an account that
  reports \<open>UNDEPLOYED\<close> both connect, with no call to \<^verbatim>\<open>deploy\<close> or \<^verbatim>\<open>waitDeployed\<close> before,
  where test-connection on the same account deploys first.
\<close>

theorem close_routes_connect_without_guard:
  "getp (account_in_state ''UNDEPLOYED'') ''state'' \<noteq> JStr ''DEPLOYED''
   \<and> snd (snd (close_position (stub (account_in_state ''UNDEPLOYED'') [position ''p1''] [] (\<lambda>_. None))
        (request [(''positionId'', JStr ''p1'')]) (0, [])))
     = [NewMetaApi (JStr ''tok''), GetAccount (JStr ''acc1''), GetRPCConnection, Connect,
        WaitSynchronized, ClosePosition (JStr ''p1'')]
   \<and> snd (snd (close_all_positions (stub (account_in_state ''UNDEPLOYED'') [position ''p1''] [] (\<lambda>_. None))
        (request []) (0, [])))
     = [NewMetaApi (JStr ''tok''), GetAccount (JStr ''acc1''), GetRPCConnection, Connect,
        WaitSynchronized, GetPositions, ClosePosition (JStr ''p1'')]
   \<and> snd (snd (test_connection (stub (account_in_state ''UNDEPLOYED'') [position ''p1''] [] (\<lambda>_. None))
        (request []) (0, [])))
     = [NewMetaApi (JStr ''tok''), GetAccount (JStr ''acc1''), Deploy, WaitDeployed,
        GetRPCConnection, Connect, WaitSynchronized, GetAccountInformation]"
  by code_simp

section \<open>Orders\<close>

lemma execute_trade_run:
  assumes "truthy (getp body ''token'')" and "truthy (getp body ''accountId'')"
    and "truthy (getp body ''symbol'')" and "truthy (getp body ''volume'')"
    and "getp body ''direction'' = JStr d" and "d \<noteq> []"
    and "trade_session P body w = (Inr u, w1)"
  shows "execute_trade P body w =
           (if toUpperCase d = ''BUY'' then run_order P True body w1
            else if toUpperCase d = ''SELL'' then run_order P False body w1
            else (direction_error, w1))"
proof -
  have "printable (getp body ''volume'')"
    using guarded_session_printable[OF assms(7)[unfolded trade_session_def]] by simp
  then show ?thesis
    using assms(7)
    unfolding execute_trade_def execute_trade_factor[OF assms(1-6)]
    by (cases w1)
       (auto simp: catch_route_def run_order_def bind_def invoke_def ret_def throw_def
         js_parseFloat_def template_def split: prod.splits sum.splits)
qed

lemma execute_trade_session_fails:
  assumes "truthy (getp body ''token'')" and "truthy (getp body ''accountId'')"
    and "truthy (getp body ''symbol'')" and "truthy (getp body ''volume'')"
    and "getp body ''direction'' = JStr d" and "d \<noteq> []"
    and "trade_session P body w = (Inl e, w1)"
  shows "execute_trade P body w = (failure ''Trade execution failed'' e, w1)"
  using assms(7)
  unfolding execute_trade_def execute_trade_factor[OF assms(1-6)]
  by (simp add: catch_route_def bind_def)

lemma run_order_log:
  assumes "printable (getp body ''stopLoss'')" and "printable (getp body ''takeProfit'')"
  shows "snd (snd (run_order P buy body (s1, tr1))) = tr1 @ [order_call buy body]"
  using assms by (simp add: run_order_def split: prod.splits sum.splits)

lemma run_order_status: "status (fst (run_order P buy body w1)) \<noteq> 400"
  by (cases w1)
     (simp add: run_order_def trade_executed_def failure_def reply_def split: prod.splits sum.splits)

text \<open>
  C2, as amended. Take an execute-trade request with all five fields, whose direction is a
  string and whose symbol and volume can be printed. The gateway contacts the provider
  first: the client is built with the token, before the direction is looked at. If the
  session cannot be opened the response is the 500 of the route. Once it is open, a
  direction that upper-cases to \<open>BUY\<close> goes to the market buy order, one that upper-cases
  to \<open>SELL\<close> to the market sell order, and any other gets the 400
  \<open>Direction must be BUY or SELL\<close>, with no call made after the session.
\<close>

theorem execute_trade_direction_dispatch:
  assumes "truthy (getp body ''token'')" and "truthy (getp body ''accountId'')"
    and "truthy (getp body ''symbol'')" and "truthy (getp body ''volume'')"
    and "getp body ''direction'' = JStr d" and "d \<noteq> []"
    and "printable (getp body ''symbol'')" and "printable (getp body ''volume'')"
    and "session = trade_session P body (s, tr)"
  shows "(\<exists>rest. snd (snd session) = tr @ NewMetaApi (getp body ''token'') # rest)
       \<and> (\<forall>e w1. session = (Inl e, w1) \<longrightarrow>
            execute_trade P body (s, tr) = (failure ''Trade execution failed'' e, w1))
       \<and> (\<forall>u w1. session = (Inr u, w1) \<longrightarrow>
            execute_trade P body (s, tr) =
              (if toUpperCase d = ''BUY'' then run_order P True body w1
               else if toUpperCase d = ''SELL'' then run_order P False body w1
               else (direction_error, w1)))"
proof -
  have "\<forall>v \<in> set [getp body ''direction'', getp body ''volume'', getp body ''symbol'']. printable v"
    using assms(5,7,8) by simp
  then have "\<exists>rest. snd (snd session) = tr @ NewMetaApi (getp body ''token'') # rest"
    unfolding assms(9) trade_session_def by (rule session_contacts_provider)
  then show ?thesis
    using execute_trade_session_fails[OF assms(1-6)] execute_trade_run[OF assms(1-6)]
    unfolding assms(9) by blast
qed

theorem execute_trade_direction_counterexample:
  "execute_trade (deployed_stub [] []) (trade_request ''hold'' []) (0, [])
     = (reply 400 [(''success'', JBool False), (''error'', JStr ''Direction must be BUY or SELL'')],
        (5, [NewMetaApi (JStr ''tok''), GetAccount (JStr ''acc1''), GetRPCConnection, Connect,
             WaitSynchronized]))"
  by code_simp

theorem execute_trade_direction_dispatch_witness:
  "execute_trade (deployed_stub [] []) (trade_request ''bUy'' []) (0, [])
     = (trade_executed [''orderId'' \<mapsto> JStr ''o1''],
        (6, session_calls @ [CreateMarketBuyOrder (JStr ''EURUSD'') (JNum (Fin (1 / 100))) JUndefined JUndefined]))
   \<and> execute_trade (deployed_stub [] []) (trade_request ''Sell'' []) (0, [])
     = (trade_executed [''orderId'' \<mapsto> JStr ''o2''],
        (6, session_calls @ [CreateMarketSellOrder (JStr ''EURUSD'') (JNum (Fin (1 / 100))) JUndefined JUndefined]))
   \<and> execute_trade (deployed_stub [] []) (trade_request ''hold'' []) (0, [])
     = (direction_error, (5, session_calls))"
proof -
  have up: "toUpperCase ''bUy'' = ''BUY''" "toUpperCase ''Sell'' = ''SELL''"
    "toUpperCase ''hold'' = ''HOLD''"
    by (simp_all add: toUpperCase_def toUpperChar_def)
  have buy: "run_order (deployed_stub [] []) True (trade_request d []) (5, session_calls)
       = (trade_executed [''orderId'' \<mapsto> JStr ''o1''],
          (6, session_calls @ [CreateMarketBuyOrder (JStr ''EURUSD'') (JNum (Fin (1 / 100))) JUndefined JUndefined]))"
    for d
    by (simp add: run_order_def place_order_def order_call_def deployed_stub_def stub_def js_or_def
        trade_request_def request_def getp_def)
  have sell: "run_order (deployed_stub [] []) False (trade_request d []) (5, session_calls)
       = (trade_executed [''orderId'' \<mapsto> JStr ''o2''],
          (6, session_calls @ [CreateMarketSellOrder (JStr ''EURUSD'') (JNum (Fin (1 / 100))) JUndefined JUndefined]))"
    for d
    by (simp add: run_order_def place_order_def order_call_def deployed_stub_def stub_def js_or_def
        trade_request_def request_def getp_def)
  have printable: "printable (getp (trade_request d []) ''symbol'')"
    "printable (getp (trade_request d []) ''volume'')" for d
    by (simp_all add: trade_request_def request_def getp_def)
  have dispatch: "execute_trade (deployed_stub [] []) (trade_request d []) (0, []) =
      (if toUpperCase d = ''BUY'' then run_order (deployed_stub [] []) True (trade_request d []) (5, session_calls)
       else if toUpperCase d = ''SELL'' then run_order (deployed_stub [] []) False (trade_request d []) (5, session_calls)
       else (direction_error, (5, session_calls)))" if "d \<noteq> []" for d
    using execute_trade_direction_dispatch[where P = "deployed_stub [] []"
        and body = "trade_request d []" and d = d and s = 0 and tr = "[]",
        OF trade_request_fields that printable refl]
    by (simp add: deployed_stub_trade_session)
  have a: "execute_trade (deployed_stub [] []) (trade_request ''bUy'' []) (0, [])
     = (trade_executed [''orderId'' \<mapsto> JStr ''o1''],
        (6, session_calls @ [CreateMarketBuyOrder (JStr ''EURUSD'') (JNum (Fin (1 / 100))) JUndefined JUndefined]))"
    using dispatch[of "''bUy''"] by (simp add: up buy)
  have b: "execute_trade (deployed_stub [] []) (trade_request ''Sell'' []) (0, [])
     = (trade_executed [''orderId'' \<mapsto> JStr ''o2''],
        (6, session_calls @ [CreateMarketSellOrder (JStr ''EURUSD'') (JNum (Fin (1 / 100))) JUndefined JUndefined]))"
    using dispatch[of "''Sell''"] by (simp add: up sell)
  have c: "execute_trade (deployed_stub [] []) (trade_request ''hold'' []) (0, [])
     = (direction_error, (5, session_calls))"
    using dispatch[of "''hold''"] by (simp add: up)
  from a b c show ?thesis by simp
qed

lemma run_order_unprintable:
  assumes "\<not> (printable (getp body ''stopLoss'') \<and> printable (getp body ''takeProfit''))"
  shows "run_order P buy body (s1, tr1) = (failure ''Trade execution failed'' primitive_error, (s1, tr1))"
  using assms by (auto simp: run_order_def)

text \<open>
  C9, as amended. Take an execute-trade request with all five fields and a direction that
  upper-cases to \<open>BUY\<close> or \<open>SELL\<close>, on which the session has been opened. If \<^verbatim>\<open>stopLoss\<close>
  and \<^verbatim>\<open>takeProfit\<close> can both be converted to a string, the order is placed, a \<^verbatim>\<open>stopLoss\<close>
  or \<^verbatim>\<open>takeProfit\<close> that \<^verbatim>\<open>parseFloat\<close> reads as \<open>NaN\<close> is handed to the SDK as \<^verbatim>\<open>undefined\<close>,
  and the request is not answered with a validation error. If one of them cannot be
  converted (an object with a property \<^verbatim>\<open>toString\<close>, or an array holding one), no order
  is placed: the conversion throws and the response is the 500 of the route, with the
  message of the \<^verbatim>\<open>TypeError\<close>. (The claim says that every value that does not parse is
  treated as absent; the counterexample is a \<^verbatim>\<open>stopLoss\<close> of \<^verbatim>\<open>{"toString": 1}\<close>.)
\<close>

theorem unparsable_stops_dropped:
  assumes "truthy (getp body ''token'')" and "truthy (getp body ''accountId'')"
    and "truthy (getp body ''symbol'')" and "truthy (getp body ''volume'')"
    and "getp body ''direction'' = JStr d"
    and "toUpperCase d = ''BUY'' \<or> toUpperCase d = ''SELL''"
    and "trade_session P body w = (Inr u, (s1, tr1))"
    and "order = (if toUpperCase d = ''BUY'' then CreateMarketBuyOrder else CreateMarketSellOrder)
                   (getp body ''symbol'') (JNum (parseFloat (getp body ''volume'')))"
  shows "(printable (getp body ''stopLoss'') \<and> printable (getp body ''takeProfit'') \<longrightarrow>
           (\<exists>sl tp. snd (snd (execute_trade P body w)) = tr1 @ [order sl tp]
              \<and> (parseFloat (getp body ''stopLoss'') = NaN \<longrightarrow> sl = JUndefined)
              \<and> (parseFloat (getp body ''takeProfit'') = NaN \<longrightarrow> tp = JUndefined)
              \<and> status (fst (execute_trade P body w)) \<noteq> 400))
       \<and> (\<not> (printable (getp body ''stopLoss'') \<and> printable (getp body ''takeProfit'')) \<longrightarrow>
           execute_trade P body w =
             (reply 500 [(''success'', JBool False),
                         (''error'', JStr ''Cannot convert object to primitive value'')],
              (s1, tr1)))"
proof (intro conjI impI)
  let ?buy = "toUpperCase d = ''BUY''"
  have d: "d \<noteq> []"
    using assms(6) by (auto simp: toUpperCase_def)
  have run: "execute_trade P body w = run_order P ?buy body (s1, tr1)"
    using execute_trade_run[OF assms(1-5) d assms(7)] assms(6) by auto
  {
    assume pr: "printable (getp body ''stopLoss'') \<and> printable (getp body ''takeProfit'')"
    let ?sl = "js_or (JNum (parseFloat (getp body ''stopLoss''))) JUndefined"
    let ?tp = "js_or (JNum (parseFloat (getp body ''takeProfit''))) JUndefined"
    have "order_call ?buy body = order ?sl ?tp"
      by (simp add: order_call_def assms(8))
    then have "snd (snd (execute_trade P body w)) = tr1 @ [order ?sl ?tp]"
      using run run_order_log[of body P ?buy s1 tr1] pr by simp
    moreover have "parseFloat (getp body ''stopLoss'') = NaN \<longrightarrow> ?sl = JUndefined"
      by (simp add: js_or_def)
    moreover have "parseFloat (getp body ''takeProfit'') = NaN \<longrightarrow> ?tp = JUndefined"
      by (simp add: js_or_def)
    moreover have "status (fst (execute_trade P body w)) \<noteq> 400"
      using run run_order_status[of P ?buy body "(s1, tr1)"] by simp
    ultimately show "\<exists>sl tp. snd (snd (execute_trade P body w)) = tr1 @ [order sl tp]
              \<and> (parseFloat (getp body ''stopLoss'') = NaN \<longrightarrow> sl = JUndefined)
              \<and> (parseFloat (getp body ''takeProfit'') = NaN \<longrightarrow> tp = JUndefined)
              \<and> status (fst (execute_trade P body w)) \<noteq> 400"
      by blast
  }
  {
    assume "\<not> (printable (getp body ''stopLoss'') \<and> printable (getp body ''takeProfit''))"
    then show "execute_trade P body w =
             (reply 500 [(''success'', JBool False),
                         (''error'', JStr ''Cannot convert object to primitive value'')],
              (s1, tr1))"
      using run run_order_unprintable[of body P ?buy s1 tr1]
      by (simp add: failure_message primitive_error_def)
  }
qed

theorem unparsable_stops_dropped_witness:
  "parseFloat (JStr ''abc'') = NaN \<and> parseFloat (JBool True) = NaN
   \<and> snd (snd (execute_trade (deployed_stub [] [])
        (trade_request ''buy'' [(''stopLoss'', JStr ''abc''), (''takeProfit'', JBool True)]) (0, [])))
     = session_calls @ [CreateMarketBuyOrder (JStr ''EURUSD'') (JNum (Fin (1 / 100))) JUndefined JUndefined]
   \<and> status (fst (execute_trade (deployed_stub [] [])
        (trade_request ''buy'' [(''stopLoss'', JStr ''abc''), (''takeProfit'', JBool True)]) (0, []))) \<noteq> 400
   \<and> execute_trade (deployed_stub [] [])
        (trade_request ''sell'' [(''takeProfit'', JArr [JObj [(''toString'', JNull)]])]) (0, [])
     = (reply 500 [(''success'', JBool False),
                   (''error'', JStr ''Cannot convert object to primitive value'')],
        (5, session_calls))"
proof -
  let ?body = "trade_request ''buy'' [(''stopLoss'', JStr ''abc''), (''takeProfit'', JBool True)]"
  let ?bad = "trade_request ''sell'' [(''takeProfit'', JArr [JObj [(''toString'', JNull)]])]"
  have up: "toUpperCase ''buy'' = ''BUY'' \<or> toUpperCase ''buy'' = ''SELL''"
    "toUpperCase ''sell'' = ''BUY'' \<or> toUpperCase ''sell'' = ''SELL''"
    by (simp_all add: toUpperCase_def toUpperChar_def)
  have nan: "parseFloat (JStr ''abc'') = NaN" "parseFloat (JBool True) = NaN"
    by (simp_all add: parseFloat_str_def strip_sign_def is_ws_def unsigned_decimal_def is_digit_def)
  have stops: "getp ?body ''stopLoss'' = JStr ''abc''" "getp ?body ''takeProfit'' = JBool True"
    "getp ?body ''symbol'' = JStr ''EURUSD''" "getp ?body ''volume'' = JNum (Fin (1 / 100))"
    "getp ?bad ''takeProfit'' = JArr [JObj [(''toString'', JNull)]]"
    by (simp_all add: trade_request_def request_def getp_def)
  have placed: "snd (snd (execute_trade (deployed_stub [] []) ?body (0, [])))
     = session_calls @ [CreateMarketBuyOrder (JStr ''EURUSD'') (JNum (Fin (1 / 100))) JUndefined JUndefined]
   \<and> status (fst (execute_trade (deployed_stub [] []) ?body (0, []))) \<noteq> 400"
    using unparsable_stops_dropped[where P = "deployed_stub [] []" and body = ?body
      and d = "''buy''" and w = "(0, [])", OF trade_request_fields up(1) deployed_stub_trade_session
      refl] nan
    by (auto simp: stops toUpperCase_def toUpperChar_def)
  have thrown: "execute_trade (deployed_stub [] []) ?bad (0, [])
     = (reply 500 [(''success'', JBool False),
                   (''error'', JStr ''Cannot convert object to primitive value'')],
        (5, session_calls))"
    using unparsable_stops_dropped[where P = "deployed_stub [] []" and body = ?bad
      and d = "''sell''" and w = "(0, [])", OF trade_request_fields up(2) deployed_stub_trade_session
      refl]
    by (simp add: stops)
  from nan placed thrown show ?thesis by simp
qed

theorem unparsable_stops_counterexample:
  "parseFloat (JObj [(''toString'', JNum (Fin 1))]) = NaN
   \<and> execute_trade (deployed_stub [] [])
        (trade_request ''buy'' [(''stopLoss'', JObj [(''toString'', JNum (Fin 1))])]) (0, [])
     = (reply 500 [(''success'', JBool False),
                   (''error'', JStr ''Cannot convert object to primitive value'')],
        (5, [NewMetaApi (JStr ''tok''), GetAccount (JStr ''acc1''), GetRPCConnection, Connect,
             WaitSynchronized]))"
  by code_simp

section \<open>Validation\<close>

text \<open>
  C3. A request to any POST route from whose body a required field is missing is answered
  with the route's 400 response, and the world is left as it was: no client is built and
  no method of the SDK is called, whatever the provider.
\<close>

theorem missing_required_field_rejected:
  assumes "k \<in> set (required_fields op)" and "body k = None"
  shows "route op P clk body w = (validation_error op, w) \<and> status (validation_error op) = 400"
proof -
  have absent: "\<not> truthy (getp body k)"
    using assms(2) by (rule getp_absent)
  show ?thesis
  proof (cases op)
    case Accounts
    then show ?thesis
      using assms(1) absent
      by (auto simp: accounts_def accounts_try_def catch_route_def ret_def reply_def)
  next
    case TestConnection
    then show ?thesis
      using assms(1) absent
      by (auto simp: test_connection_def test_connection_try_def catch_route_def ret_def reply_def)
  next
    case ExecuteTrade
    then show ?thesis
      using assms(1) absent
      by (auto simp: execute_trade_def execute_trade_try_def catch_route_def ret_def reply_def)
  next
    case GetPositionsOp
    then show ?thesis
      using assms(1) absent
      by (auto simp: get_positions_def get_positions_try_def catch_route_def ret_def reply_def)
  next
    case ClosePositionOp
    then show ?thesis
      using assms(1) absent
      by (auto simp: close_position_def close_position_try_def catch_route_def ret_def reply_def)
  next
    case CloseAllPositions
    then show ?thesis
      using assms(1) absent
      by (auto simp: close_all_positions_def close_all_positions_try_def catch_route_def ret_def
          reply_def)
  next
    case GetHistory
    then show ?thesis
      using assms(1) absent
      by (auto simp: get_history_def get_history_try_def catch_route_def ret_def reply_def)
  qed
qed

theorem missing_required_field_rejected_witness:
  "''volume'' \<in> set (required_fields ExecuteTrade)
   \<and> map_of [(''token'', JStr ''tok''), (''accountId'', JStr ''acc1''),
              (''symbol'', JStr ''EURUSD''), (''direction'', JStr ''buy'')] ''volume'' = None
   \<and> route ExecuteTrade (deployed_stub [] []) (frozen_clock 0)
        (map_of [(''token'', JStr ''tok''), (''accountId'', JStr ''acc1''),
                 (''symbol'', JStr ''EURUSD''), (''direction'', JStr ''buy'')]) (0, [])
      = (reply 400 [(''success'', JBool False),
                    (''error'', JStr ''Missing required fields: token, accountId, symbol, direction, volume'')],
         (0, []))"
proof -
  have k: "''volume'' \<in> set (required_fields ExecuteTrade)"
    by simp
  have none: "map_of [(''token'', JStr ''tok''), (''accountId'', JStr ''acc1''),
              (''symbol'', JStr ''EURUSD''), (''direction'', JStr ''buy'')] ''volume'' = None"
    by simp
  from missing_required_field_rejected[where op = ExecuteTrade and k = "''volume''"
      and body = "map_of [(''token'', JStr ''tok''), (''accountId'', JStr ''acc1''),
              (''symbol'', JStr ''EURUSD''), (''direction'', JStr ''buy'')]"
      and P = "deployed_stub [] []" and clk = "frozen_clock 0" and w = "(0, [])", OF k none] k none
  show ?thesis by simp
qed

section \<open>Closing all positions\<close>

lemma close_each_eq:
  "close_each P ps acc (s, tr) =
     (acc @ map2 result_entry ps (close_outcomes P ps s),
      (close_final P ps s, tr @ map (\<lambda>p. ClosePosition (getp p ''id'')) ps))"
proof (induction ps arbitrary: acc s tr)
  case Nil
  show ?case by simp
next
  case (Cons p ps)
  obtain r s' where step: "closePosition P (getp p ''id'') s = (r, s')"
    by (cases "closePosition P (getp p ''id'') s")
  show ?case
  proof (cases r)
    case (Inl e)
    with step Cons.IH show ?thesis by (simp add: invoke_def)
  next
    case (Inr result)
    with step Cons.IH show ?thesis by (simp add: invoke_def)
  qed
qed

lemma length_close_outcomes: "length (close_outcomes P ps s) = length ps"
  by (induction ps arbitrary: s) (auto split: prod.splits)

lemma success_result_entry: "truthy (jsprop (result_entry p r) ''success'') = returned r"
  by (cases r) (simp_all add: jsprop_def getp_def returned_def)

lemma count_successes:
  "length (filter (\<lambda>r. truthy (jsprop r ''success'')) (map2 result_entry ps rs))
     = length (filter returned (take (length ps) rs))"
proof (induction ps arbitrary: rs)
  case Nil
  show ?case by simp
next
  case (Cons p ps)
  show ?case
  proof (cases rs)
    case Nil
    then show ?thesis by simp
  next
    case (Cons r rs')
    with Cons.IH[of rs'] show ?thesis by (simp add: success_result_entry)
  qed
qed

text \<open>
  C4. Once the channel is open and the positions are listed, close-all-positions calls
  \<^verbatim>\<open>closePosition\<close> once for every position, in the order of the list, whether or not an
  earlier close failed. The results hold one entry per position in that order: the
  position's id with \<open>success: true\<close> and the order id, or with \<open>success: false\<close> and the
  error's message. The message is \<open>Closed N positions\<close>, \<open>N\<close> being the number of closes
  that returned, and the response is a 200.
\<close>

theorem close_all_positions_partial_failure:
  assumes "truthy (getp body ''token'')" and "truthy (getp body ''accountId'')"
    and "closing_session P body w = (Inr u, (s1, tr1))"
    and "getPositions P s1 = (Inr positions, s2)"
    and "outcomes = close_outcomes P positions s2"
  shows "length outcomes = length positions
       \<and> close_all_positions P body w =
           (reply 200
              [(''success'', JBool True),
               (''message'',
                  JStr (''Closed '' @ show_nat (length (filter returned outcomes)) @ '' positions'')),
               (''results'', JArr (map2 result_entry positions outcomes))],
            (close_final P positions s2,
             tr1 @ [GetPositions] @ map (\<lambda>p. ClosePosition (getp p ''id'')) positions))"
proof -
  have len: "length outcomes = length positions"
    using assms(5) by (simp add: length_close_outcomes)
  have count: "length (filter (\<lambda>r. truthy (jsprop r ''success'')) (map2 result_entry positions outcomes))
      = length (filter returned outcomes)"
    using count_successes[of positions outcomes] len by simp
  have "close_all_positions P body w =
           (reply 200
              [(''success'', JBool True),
               (''message'',
                  JStr (''Closed '' @ show_nat (length (filter (\<lambda>r. truthy (jsprop r ''success''))
                     (map2 result_entry positions outcomes))) @ '' positions'')),
               (''results'', JArr (map2 result_entry positions outcomes))],
            (close_final P positions s2,
             tr1 @ [GetPositions] @ map (\<lambda>p. ClosePosition (getp p ''id'')) positions))"
    using assms(3,4)
    unfolding close_all_positions_def close_all_positions_factor[OF assms(1,2)] assms(5)
    by (simp add: catch_route_def bind_def invoke_def ret_def close_each_eq)
  with len count show ?thesis by simp
qed

theorem close_all_positions_partial_failure_witness:
  "close_all_positions (stub (account_in_state ''DEPLOYED'') [position ''A'', position ''B'', position ''C''] [] refuse_B)
      (request []) (0, [])
     = (reply 200
          [(''success'', JBool True),
           (''message'', JStr ''Closed 2 positions''),
           (''results'',
              JArr [JObj [(''positionId'', JStr ''A''), (''success'', JBool True), (''orderId'', JStr ''A'')],
                    JObj [(''positionId'', JStr ''B''), (''success'', JBool False),
                          (''error'', JStr ''Market closed'')],
                    JObj [(''positionId'', JStr ''C''), (''success'', JBool True), (''orderId'', JStr ''C'')]])],
        (9, session_calls @ [GetPositions, ClosePosition (JStr ''A''), ClosePosition (JStr ''B''),
                             ClosePosition (JStr ''C'')]))"
proof -
  let ?ps = "[position ''A'', position ''B'', position ''C'']"
  let ?P = "stub (account_in_state ''DEPLOYED'') ?ps [] refuse_B"
  have positions: "getPositions ?P 5 = (Inr ?ps, 6)"
    by (simp add: stub_def)
  have outcomes: "close_outcomes ?P ?ps 6
      = [Inr [''orderId'' \<mapsto> JStr ''A''], Inl (Error ''Market closed''), Inr [''orderId'' \<mapsto> JStr ''C'']]"
    by (simp add: stub_def position_def refuse_B_def getp_def)
  have final: "close_final ?P ?ps 6 = 9"
    by (simp add: stub_def position_def refuse_B_def getp_def)
  have two: "show_nat (Suc (Suc 0)) = ''2''"
    by (simp add: show_nat.simps)
  from close_all_positions_partial_failure[where P = ?P and body = "request []" and w = "(0, [])",
      OF request_token request_accountId stub_closing_session positions refl]
  show ?thesis
    unfolding outcomes final
    by (simp add: returned_def two position_def getp_def)
qed

section \<open>History\<close>

lemma slice0_nat: "slice0 xs (JNum (Fin (of_nat n))) = take n xs"
  by (simp add: slice0_def toIntegerOrInfinity_def trunc_def min_def)

lemma slice0_prefix: "\<exists>n. slice0 xs v = take n xs"
proof (cases "v = JUndefined")
  case True
  then have "slice0 xs v = take (length xs) xs" by (simp add: slice0_def)
  then show ?thesis by blast
next
  case False
  show ?thesis
  proof (cases "toIntegerOrInfinity (toNumber v)")
    case NaN
    then have "slice0 xs v = take 0 xs" using False by (simp add: slice0_def)
    then show ?thesis by blast
  next
    case (Fin q)
    then show ?thesis using False by (auto simp: slice0_def Let_def)
  next
    case PosInf
    then have "slice0 xs v = take (length xs) xs" using False by (simp add: slice0_def)
    then show ?thesis by blast
  next
    case NegInf
    then have "slice0 xs v = take 0 xs" using False by (simp add: slice0_def)
    then show ?thesis by blast
  qed
qed

lemma stringToNumber_empty: "stringToNumber [] = Fin 0"
  by (simp add: stringToNumber_def trim_def)

lemma slice0_falsy: "v \<noteq> JUndefined \<Longrightarrow> \<not> truthy v \<Longrightarrow> slice0 xs v = []"
  by (cases v rule: truthy.cases)
     (simp_all add: slice0_def toIntegerOrInfinity_def trunc_def stringToNumber_empty)

lemma get_history_run:
  assumes "truthy (getp body ''token'')" and "truthy (getp body ''accountId'')"
    and "account_session P body w = (Inr u, w1)"
    and "history_query P clk body w1 = (Inr deals, w2)"
    and "printable (history_limit body)"
  shows "get_history P clk body w =
           (history_reply (slice0 (map dealProjection deals) (history_limit body)), w2)"
  using assms(3-5)
  unfolding get_history_def get_history_factor[OF assms(1,2)]
  by (simp add: catch_route_def bind_def js_slice0_def ret_def)

lemma history_query_default:
  assumes "body ''startTime'' = None"
  shows "history_query P clk body =
     invoke (GetHistoryDealsByTimeRange (DateMs (dateNow clk - 30 * 24 * 60 * 60 * 1000))
               (DateMs (newDate clk)))
       (getHistoryDealsByTimeRange P (DateMs (dateNow clk - 30 * 24 * 60 * 60 * 1000))
          (DateMs (newDate clk)))"
  using assms by (simp add: history_query_def getp_def bind_ret)

text \<open>
  C5. Get-history truncates after projection: with no limit the first 20 projected deals
  are returned, with a limit that is a natural number \<open>n\<close> (5, say) the first \<open>n\<close>, and
  whatever the limit, what is returned is a prefix of the provider's list, in its order.
\<close>

theorem get_history_truncates:
  assumes "truthy (getp body ''token'')" and "truthy (getp body ''accountId'')"
    and "account_session P body w = (Inr u, w1)"
    and "history_query P clk body w1 = (Inr deals, w2)"
  shows "(getp body ''limit'' = JUndefined \<longrightarrow>
            get_history P clk body w = (history_reply (take 20 (map dealProjection deals)), w2))
       \<and> (\<forall>n. getp body ''limit'' = JNum (Fin (of_nat n)) \<longrightarrow>
            get_history P clk body w = (history_reply (take n (map dealProjection deals)), w2))
       \<and> (printable (getp body ''limit'') \<longrightarrow>
            (\<exists>n. get_history P clk body w = (history_reply (take n (map dealProjection deals)), w2)))"
proof (intro conjI allI impI)
  assume absent: "getp body ''limit'' = JUndefined"
  then have "history_limit body = JNum (Fin (of_nat 20))"
    by (simp add: history_limit_def)
  then show "get_history P clk body w = (history_reply (take 20 (map dealProjection deals)), w2)"
    using get_history_run[OF assms] slice0_nat[of "map dealProjection deals" 20] by simp
next
  fix n
  assume "getp body ''limit'' = JNum (Fin (of_nat n))"
  then have "history_limit body = JNum (Fin (of_nat n))"
    by (simp add: history_limit_def)
  then show "get_history P clk body w = (history_reply (take n (map dealProjection deals)), w2)"
    using get_history_run[OF assms] slice0_nat[of "map dealProjection deals" n] by simp
next
  assume "printable (getp body ''limit'')"
  then have "printable (history_limit body)"
    by (simp add: history_limit_def)
  then have "get_history P clk body w
      = (history_reply (slice0 (map dealProjection deals) (history_limit body)), w2)"
    by (rule get_history_run[OF assms])
  then show "\<exists>n. get_history P clk body w = (history_reply (take n (map dealProjection deals)), w2)"
    using slice0_prefix[of "map dealProjection deals" "history_limit body"] by auto
qed

lemma deployed_stub_query:
  assumes "map_of kvs ''startTime'' = None"
  shows "history_query (deployed_stub ps ds) (frozen_clock 1700000000000) (request kvs) (5, tr)
           = (Inr ds, (6, tr @ [GetHistoryDealsByTimeRange (DateMs 1697408000000)
                                  (DateMs 1700000000000)]))"
proof -
  have "request kvs ''startTime'' = None"
    using assms by (simp add: request_def)
  then show ?thesis
    by (simp add: history_query_default invoke_def deployed_stub_def stub_def frozen_clock_def)
qed

theorem get_history_truncates_witness:
  "get_history (deployed_stub [] (map deal [0..<50])) (frozen_clock 1700000000000) (request []) (0, [])
     = (history_reply (map dealProjection (map deal [0..<20])),
        (6, session_calls @ [GetHistoryDealsByTimeRange (DateMs 1697408000000) (DateMs 1700000000000)]))
   \<and> get_history (deployed_stub [] (map deal [0..<50])) (frozen_clock 1700000000000)
        (request [(''limit'', JNum (Fin 5))]) (0, [])
     = (history_reply (map dealProjection (map deal [0..<5])),
        (6, session_calls @ [GetHistoryDealsByTimeRange (DateMs 1697408000000) (DateMs 1700000000000)]))"
proof -
  let ?P = "deployed_stub [] (map deal [0..<50])"
  let ?clk = "frozen_clock 1700000000000"
  have absent: "getp (request []) ''limit'' = JUndefined"
    by (simp add: request_def getp_def)
  have five: "getp (request [(''limit'', JNum (Fin 5))]) ''limit'' = JNum (Fin (of_nat 5))"
    by (simp add: request_def getp_def)
  have t20: "take 20 (map dealProjection (map deal [0..<50])) = map dealProjection (map deal [0..<20])"
    by (simp add: take_map)
  have t5: "take 5 (map dealProjection (map deal [0..<50])) = map dealProjection (map deal [0..<5])"
    by (simp add: take_map)
  have q0: "map_of [] ''startTime'' = (None :: jsval option)"
    by simp
  have q5: "map_of [(''limit'', JNum (Fin 5))] ''startTime'' = None"
    by simp
  from get_history_truncates[where P = ?P and clk = ?clk and body = "request []" and w = "(0, [])",
      OF request_token request_accountId deployed_stub_session deployed_stub_query[OF q0],
      THEN conjunct1]
  have a: "get_history ?P ?clk (request []) (0, [])
     = (history_reply (take 20 (map dealProjection (map deal [0..<50]))),
        (6, session_calls @ [GetHistoryDealsByTimeRange (DateMs 1697408000000) (DateMs 1700000000000)]))"
    using absent by simp
  from get_history_truncates[where P = ?P and clk = ?clk
      and body = "request [(''limit'', JNum (Fin 5))]" and w = "(0, [])",
      OF request_token request_accountId deployed_stub_session deployed_stub_query[OF q5],
      THEN conjunct2, THEN conjunct1, rule_format, OF five]
  have b: "get_history ?P ?clk (request [(''limit'', JNum (Fin 5))]) (0, [])
     = (history_reply (take 5 (map dealProjection (map deal [0..<50]))),
        (6, session_calls @ [GetHistoryDealsByTimeRange (DateMs 1697408000000) (DateMs 1700000000000)]))"
    by simp
  from a b show ?thesis
    unfolding t20 t5 by simp
qed

lemma world_after_catch: "snd (catch_route fb m w) = snd (m w)"
  by (simp add: catch_route_def split: prod.splits sum.splits)

text \<open>
  C6. With no \<^verbatim>\<open>startTime\<close> in the body, the deal query is made once the session is
  open, from the reading of \<^verbatim>\<open>Date.now()\<close> less \<open>30 * 24 * 60 * 60 * 1000\<close> milliseconds to
  the time of \<^verbatim>\<open>new Date()\<close>: it is the call logged after the session, and the SDK is left
  in the state that call puts it in. The two times are read one after the other, so on
  a clock that reads \<open>now\<close> both times the range is the 30 days that end at \<open>now\<close>.
\<close>

theorem get_history_default_window:
  assumes "truthy (getp body ''token'')" and "truthy (getp body ''accountId'')"
    and "body ''startTime'' = None"
    and "account_session P body w = (Inr u, (s1, tr1))"
    and "start = DateMs (dateNow clk - 30 * 24 * 60 * 60 * 1000)" and "finish = DateMs (newDate clk)"
  shows "snd (get_history P clk body w)
           = (snd (getHistoryDealsByTimeRange P start finish s1),
              tr1 @ [GetHistoryDealsByTimeRange start finish])
       \<and> (dateNow clk = now \<and> newDate clk = now \<longrightarrow>
            start = DateMs (now - 2592000000) \<and> finish = DateMs now)"
proof -
  have "snd (get_history P clk body w)
           = (snd (getHistoryDealsByTimeRange P start finish s1),
              tr1 @ [GetHistoryDealsByTimeRange start finish])"
    using assms(4)
    unfolding get_history_def get_history_factor[OF assms(1,2)] world_after_catch
      history_query_default[where body = body, OF assms(3)] assms(5,6)
    by (auto simp: bind_def invoke_def js_slice0_def ret_def throw_def
        split: prod.splits sum.splits)
  moreover have "dateNow clk = now \<and> newDate clk = now \<longrightarrow>
          start = DateMs (now - 2592000000) \<and> finish = DateMs now"
    using assms(5,6) by simp
  ultimately show ?thesis by blast
qed

theorem get_history_default_window_witness:
  "snd (get_history (deployed_stub [] [deal 1]) (frozen_clock 1700000000000) (request []) (0, []))
     = (6, session_calls @ [GetHistoryDealsByTimeRange (DateMs 1697408000000) (DateMs 1700000000000)])"
proof -
  have none: "request [] ''startTime'' = None"
    by (simp add: request_def)
  from get_history_default_window[where P = "deployed_stub [] [deal 1]"
      and clk = "frozen_clock 1700000000000" and body = "request []" and w = "(0, [])"
      and now = 1700000000000,
      OF request_token request_accountId none deployed_stub_session refl refl]
  show ?thesis
    by (simp add: deployed_stub_def stub_def frozen_clock_def)
qed

text \<open>
  C10. A limit that is present in the body is used as it is, the default of 20 being for
  the absent one only; a present limit that is falsy (\<open>0\<close>, \<^verbatim>\<open>null\<close>) gives an empty list of
  deals, whatever the provider returned.
\<close>

theorem get_history_falsy_limit:
  assumes "truthy (getp body ''token'')" and "truthy (getp body ''accountId'')"
    and "account_session P body w = (Inr u, w1)"
    and "history_query P clk body w1 = (Inr deals, w2)"
    and "getp body ''limit'' \<noteq> JUndefined"
  shows "(printable (getp body ''limit'') \<longrightarrow>
          get_history P clk body w
            = (history_reply (slice0 (map dealProjection deals) (getp body ''limit'')), w2))
       \<and> (getp body ''limit'' = JNum (Fin 0) \<or> getp body ''limit'' = JNull
            \<or> \<not> truthy (getp body ''limit'') \<longrightarrow>
          get_history P clk body w = (history_reply [], w2))"
proof (intro conjI impI)
  have limit: "history_limit body = getp body ''limit''"
    using assms(5) by (simp add: history_limit_def)
  show run: "get_history P clk body w
           = (history_reply (slice0 (map dealProjection deals) (getp body ''limit'')), w2)"
    if "printable (getp body ''limit'')"
    using get_history_run[OF assms(1-4)] that limit by simp
  assume "getp body ''limit'' = JNum (Fin 0) \<or> getp body ''limit'' = JNull
            \<or> \<not> truthy (getp body ''limit'')"
  then have falsy: "\<not> truthy (getp body ''limit'')"
    by auto
  then have "slice0 (map dealProjection deals) (getp body ''limit'') = []"
    by (rule slice0_falsy[OF assms(5)])
  with run[OF falsy_printable[OF falsy]]
  show "get_history P clk body w = (history_reply [], w2)"
    by simp
qed

theorem get_history_falsy_limit_witness:
  "get_history (deployed_stub [] [deal 1, deal 2]) (frozen_clock 1700000000000)
        (request [(''limit'', JNum (Fin 0))]) (0, [])
     = (history_reply [],
        (6, session_calls @ [GetHistoryDealsByTimeRange (DateMs 1697408000000) (DateMs 1700000000000)]))
   \<and> get_history (deployed_stub [] [deal 1, deal 2]) (frozen_clock 1700000000000)
        (request [(''limit'', JNull)]) (0, [])
     = (history_reply [],
        (6, session_calls @ [GetHistoryDealsByTimeRange (DateMs 1697408000000) (DateMs 1700000000000)]))"
proof -
  let ?P = "deployed_stub [] [deal 1, deal 2]"
  let ?clk = "frozen_clock 1700000000000"
  have limit: "getp (request [(''limit'', v)]) ''limit'' = v" for v
    by (simp add: request_def getp_def)
  have zero: "getp (request [(''limit'', JNum (Fin 0))]) ''limit'' \<noteq> JUndefined"
    by (simp add: limit)
  have null: "getp (request [(''limit'', JNull)]) ''limit'' \<noteq> JUndefined"
    by (simp add: limit)
  have q: "map_of [(''limit'', v)] ''startTime'' = None" for v :: jsval
    by simp
  from get_history_falsy_limit[where P = ?P and clk = ?clk
      and body = "request [(''limit'', JNum (Fin 0))]" and w = "(0, [])",
      OF request_token request_accountId deployed_stub_session deployed_stub_query[OF q] zero,
      THEN conjunct2]
  have a: "get_history ?P ?clk (request [(''limit'', JNum (Fin 0))]) (0, [])
     = (history_reply [],
        (6, session_calls @ [GetHistoryDealsByTimeRange (DateMs 1697408000000) (DateMs 1700000000000)]))"
    by (simp add: limit)
  from get_history_falsy_limit[where P = ?P and clk = ?clk
      and body = "request [(''limit'', JNull)]" and w = "(0, [])",
      OF request_token request_accountId deployed_stub_session deployed_stub_query[OF q] null,
      THEN conjunct2]
  have b: "get_history ?P ?clk (request [(''limit'', JNull)]) (0, [])
     = (history_reply [],
        (6, session_calls @ [GetHistoryDealsByTimeRange (DateMs 1697408000000) (DateMs 1700000000000)]))"
    by (simp add: limit)
  from a b show ?thesis by simp
qed

section \<open>Failures\<close>































section \<open>Listing accounts\<close>

lemma cleanAccount_keys: "object_keys (cleanAccount acc) = account_fields"
  by (simp add: cleanAccount_def object_keys_def account_fields_def)

lemma cleanAccount_values: "k \<in> set account_fields \<Longrightarrow> jsprop (cleanAccount acc) k = getp acc k"
  by (auto simp: cleanAccount_def jsprop_def account_fields_def getp_def)

text \<open>
  C8. When the listing succeeds, the response holds one projection per account the
  provider returned, in the provider's order, and the fields of every projection are
  exactly \<open>id\<close>, \<open>name\<close>, \<open>type\<close>, \<open>login\<close>, \<open>server\<close>, \<open>region\<close>, \<open>state\<close>,
  \<open>connectionStatus\<close> and \<open>magic\<close>, each with the value the account has for it; no
  other field of the account is copied.
\<close>

theorem accounts_projection_fields:
  assumes "truthy (getp body ''token'')"
    and "newMetaApi P (getp body ''token'') s = (Inr u, s1)"
    and "getAccountsWithClassicPagination P s1 = (Inr page, s2)"
  shows "accounts P body (s, tr) =
           (reply 200 [(''success'', JBool True),
                       (''accounts'', JArr (map cleanAccount (items page)))],
            (s2, tr @ [NewMetaApi (getp body ''token''), GetAccountsWithClassicPagination]))
       \<and> (\<forall>acc \<in> set (items page).
            object_keys (cleanAccount acc) =
              [''id'', ''name'', ''type'', ''login'', ''server'', ''region'', ''state'',
               ''connectionStatus'', ''magic'']
            \<and> (\<forall>k \<in> set (object_keys (cleanAccount acc)). jsprop (cleanAccount acc) k = getp acc k))"
proof -
  have "accounts P body (s, tr) =
           (reply 200 [(''success'', JBool True),
                       (''accounts'', JArr (map cleanAccount (items page)))],
            (s2, tr @ [NewMetaApi (getp body ''token''), GetAccountsWithClassicPagination]))"
    using assms
    by (simp add: accounts_def accounts_try_def catch_route_def bind_def invoke_def ret_def Let_def)
  moreover have "object_keys (cleanAccount acc) =
              [''id'', ''name'', ''type'', ''login'', ''server'', ''region'', ''state'',
               ''connectionStatus'', ''magic'']" for acc
    using cleanAccount_keys[of acc] by (simp add: account_fields_def)
  moreover have "\<forall>k \<in> set (object_keys (cleanAccount acc)). jsprop (cleanAccount acc) k = getp acc k"
    for acc
    using cleanAccount_values[of _ acc] by (simp add: cleanAccount_keys)
  ultimately show ?thesis by blast
qed

theorem accounts_projection_fields_witness:
  "getp (account_in_state ''DEPLOYED'') ''accessToken'' = JStr ''secret''
   \<and> accounts (deployed_stub [] []) (request []) (0, [])
     = (reply 200
          [(''success'', JBool True),
           (''accounts'',
              JArr [JObj [(''id'', JStr ''acc1''), (''name'', JStr ''demo''), (''type'', JUndefined),
                          (''login'', JUndefined), (''server'', JUndefined), (''region'', JUndefined),
                          (''state'', JStr ''DEPLOYED''), (''connectionStatus'', JUndefined),
                          (''magic'', JUndefined)]])],
        (2, [NewMetaApi (JStr ''tok''), GetAccountsWithClassicPagination]))"
proof -
  have new: "newMetaApi (deployed_stub [] []) (getp (request []) ''token'') 0 = (Inr (), 1)"
    by (simp add: deployed_stub_def stub_def)
  have listing: "getAccountsWithClassicPagination (deployed_stub [] []) 1
      = (Inr \<lparr>items = [account_in_state ''DEPLOYED'']\<rparr>, 2)"
    by (simp add: deployed_stub_def stub_def numeral_2_eq_2)
  have token: "getp (request []) ''token'' = JStr ''tok''"
    by (simp add: request_def getp_def)
  from accounts_projection_fields[where P = "deployed_stub [] []" and body = "request []" and s = 0
      and tr = "[]", OF request_token new listing, THEN conjunct1]
  have "accounts (deployed_stub [] []) (request []) (0, [])
     = (reply 200 [(''success'', JBool True),
                   (''accounts'', JArr (map cleanAccount [account_in_state ''DEPLOYED'']))],
        (2, [NewMetaApi (JStr ''tok''), GetAccountsWithClassicPagination]))"
    by (simp add: token)
  then show ?thesis
    by (simp add: cleanAccount_def account_in_state_def getp_def)
qed

end
